theory Spec2Isabelle
  imports Complex_Main "HOL-Library.Word" "HOL-Library.Sublist"
begin

unbundle bit_operations_syntax

section \<open>Python values\<close>

text \<open>
  The transport hands the orchestrator whatever the JSON decoder produced, so a raw
  response is a JSON-shaped Python value. Strings are byte strings; a dict is an
  association list in insertion order, looked up by its first binding of a key. A float
  is the real number it denotes, or one of the three special values that Python's JSON
  decoder and \<^verbatim>\<open>float()\<close> also produce.
\<close>

datatype pyfloat = Fin real | PosInf | NegInf | NaN

datatype pyval =
    PNone
  | PBool bool
  | PInt int
  | PFloat pyfloat
  | PStr string
  | PList "pyval list"
  | PDict "(string \<times> pyval) list"

text \<open>\<^verbatim>\<open>d.get(k, default)\<close>, \<^verbatim>\<open>k in d\<close> and \<^verbatim>\<open>d[k] = v\<close> on a dict.\<close>

definition dict_get :: "(string \<times> 'v) list \<Rightarrow> string \<Rightarrow> 'v \<Rightarrow> 'v" where
  "dict_get d k dflt = (case map_of d k of None \<Rightarrow> dflt | Some v \<Rightarrow> v)"

definition dict_has :: "(string \<times> 'v) list \<Rightarrow> string \<Rightarrow> bool" where
  "dict_has d k = (map_of d k \<noteq> None)"

fun dict_set :: "(string \<times> 'v) list \<Rightarrow> string \<Rightarrow> 'v \<Rightarrow> (string \<times> 'v) list" where
  "dict_set [] k v = [(k, v)]"
| "dict_set ((k', v') # d) k v = (if k' = k then (k, v) # d else (k', v') # dict_set d k v)"

text \<open>Truthiness, as \<^verbatim>\<open>if x:\<close> and \<^verbatim>\<open>x or y\<close> test it.\<close>

fun truthy :: "pyval \<Rightarrow> bool" where
  "truthy PNone = False"
| "truthy (PBool b) = b"
| "truthy (PInt n) = (n \<noteq> 0)"
| "truthy (PFloat f) = (f \<noteq> Fin 0)"
| "truthy (PStr s) = (s \<noteq> [])"
| "truthy (PList xs) = (xs \<noteq> [])"
| "truthy (PDict d) = (d \<noteq> [])"

text \<open>Comparison of floats, and the two-argument \<^verbatim>\<open>min\<close> and \<^verbatim>\<open>max\<close>: \<^verbatim>\<open>min(a, b)\<close> is
  \<^verbatim>\<open>b\<close> when \<^verbatim>\<open>b < a\<close> and \<^verbatim>\<open>a\<close> otherwise, \<^verbatim>\<open>max(a, b)\<close> is \<^verbatim>\<open>b\<close> when \<^verbatim>\<open>b > a\<close>
  and \<^verbatim>\<open>a\<close> otherwise; every comparison with NaN is false.\<close>

fun fl_less :: "pyfloat \<Rightarrow> pyfloat \<Rightarrow> bool" where
  "fl_less NaN y = False"
| "fl_less x NaN = False"
| "fl_less (Fin a) (Fin b) = (a < b)"
| "fl_less (Fin a) PosInf = True"
| "fl_less (Fin a) NegInf = False"
| "fl_less PosInf y = False"
| "fl_less NegInf NegInf = False"
| "fl_less NegInf y = True"

definition py_min :: "pyfloat \<Rightarrow> pyfloat \<Rightarrow> pyfloat" where
  "py_min a b = (if fl_less b a then b else a)"

definition py_max :: "pyfloat \<Rightarrow> pyfloat \<Rightarrow> pyfloat" where
  "py_max a b = (if fl_less a b then b else a)"

text \<open>
  The uniform result. Modelled from the spec: the class \<^verbatim>\<open>MCPResponse\<close> of
  \<^verbatim>\<open>models/models.py\<close> is not among the sources; the spec gives it a success flag, an
  optional message, an optional error string and an optional data payload. The record
  holds the four fields as the constructor receives them, an omitted one being
  \<^verbatim>\<open>None\<close>; the validation the class itself performs on them is not modelled.
\<close>

record MCPResponse =
  success :: pyval
  message :: pyval
  error :: pyval
  data :: pyval

text \<open>What a dispatch returns: a JSON-shaped value, or an already uniform result.\<close>

datatype response = Py pyval | Resp MCPResponse

text \<open>
  Two builtins of Python are parameters of the model: the parser behind \<^verbatim>\<open>float(s)\<close>
  for a string (no result is \<^verbatim>\<open>ValueError\<close>), and \<^verbatim>\<open>str(x)\<close>.
\<close>

record builtins =
  float_of_str :: "string \<Rightarrow> pyfloat option"
  str_of :: "response \<Rightarrow> string"

text \<open>
  Exceptions: the three that \<^verbatim>\<open>float()\<close> raises, and \<open>Exception s\<close> for an exception
  (of class \<^verbatim>\<open>Exception\<close> or below) raised by a collaborator outside the sources, \<open>s\<close>
  being its \<^verbatim>\<open>str()\<close>.
\<close>

datatype exn = TypeError | ValueError | OverflowError | Exception string

text \<open>
  \<^verbatim>\<open>float(x)\<close>. An int converts unless it rounds to \<open>2 ^ 1024\<close> or beyond, which is
  \<^verbatim>\<open>OverflowError\<close>; the rounding of an int above \<open>2 ^ 53\<close> to the nearest double is
  not modelled (the only use of the value is the clamp below, which it does not change).
\<close>

definition float_of_int :: "int \<Rightarrow> exn + pyfloat" where
  "float_of_int n = (if 2 ^ 1024 - 2 ^ 970 \<le> \<bar>n\<bar> then Inl OverflowError else Inr (Fin (of_int n)))"

fun py_float :: "builtins \<Rightarrow> pyval \<Rightarrow> exn + pyfloat" where
  "py_float B PNone = Inl TypeError"
| "py_float B (PBool b) = Inr (Fin (if b then 1 else 0))"
| "py_float B (PInt n) = float_of_int n"
| "py_float B (PFloat f) = Inr f"
| "py_float B (PStr s) = (case float_of_str B s of None \<Rightarrow> Inl ValueError | Some f \<Rightarrow> Inr f)"
| "py_float B (PList xs) = Inl TypeError"
| "py_float B (PDict d) = Inl TypeError"

section \<open>The execution orchestrator: classification and normalization\<close>

definition DEFAULT_POLL_INTERVAL :: real where
  "DEFAULT_POLL_INTERVAL = 1"

definition MAX_POLL_SECONDS :: real where
  "MAX_POLL_SECONDS = 600"

text \<open>
  \<^verbatim>\<open>max(0.1, min(interval, 5.0))\<close> on a float. \<^verbatim>\<open>min(nan, 5.0)\<close> is \<^verbatim>\<open>nan\<close> and
  \<^verbatim>\<open>max(0.1, nan)\<close> is \<^verbatim>\<open>0.1\<close>, so the result is always a finite number; lemma
  \<open>clamp_interval_python\<close> below checks the table against \<open>py_min\<close> and \<open>py_max\<close>.
\<close>

fun clamp_interval :: "pyfloat \<Rightarrow> real" where
  "clamp_interval (Fin r) = max (1 / 10) (min r 5)"
| "clamp_interval PosInf = 5"
| "clamp_interval NegInf = 1 / 10"
| "clamp_interval NaN = 1 / 10"

text \<open>\<^verbatim>\<open>_interpret_status\<close>: the status and the next poll interval, or the exception raised.\<close>

definition interpret_status :: "builtins \<Rightarrow> response \<Rightarrow> exn + (string \<times> real)" where
  "interpret_status B response =
    (if response = Py PNone then Inr (''pending'', DEFAULT_POLL_INTERVAL)
     else case response of
       Py (PDict d) \<Rightarrow>
         (let status = dict_get d ''_mcp_status'' PNone in
          if status = PNone then
            (if length (map fst d) = 0 then Inr (''pending'', DEFAULT_POLL_INTERVAL)
             else Inr (''final'', DEFAULT_POLL_INTERVAL))
          else if status = PStr ''pending'' then
            (let interval_raw = dict_get d ''_mcp_poll_interval'' (PFloat (Fin DEFAULT_POLL_INTERVAL)) in
             case py_float B interval_raw of
               Inr interval \<Rightarrow> Inr (''pending'', clamp_interval interval)
             | Inl TypeError \<Rightarrow> Inr (''pending'', clamp_interval (Fin DEFAULT_POLL_INTERVAL))
             | Inl ValueError \<Rightarrow> Inr (''pending'', clamp_interval (Fin DEFAULT_POLL_INTERVAL))
             | Inl e \<Rightarrow> Inl e)
          else if status = PStr ''complete'' then Inr (''complete'', DEFAULT_POLL_INTERVAL)
          else if status = PStr ''error'' then Inr (''error'', DEFAULT_POLL_INTERVAL)
          else Inr (''final'', DEFAULT_POLL_INTERVAL))
     | _ \<Rightarrow> Inr (''final'', DEFAULT_POLL_INTERVAL))"

text \<open>
  \<^verbatim>\<open>_normalize_response\<close>, branch by branch. The first dict branch returns, so the
  second test for a dict (written out as \<open>normalize_dict_with_marker\<close>, the only place
  that looks at the status marker) is reached by no dict.
\<close>

definition normalize_dict_with_marker :: "builtins \<Rightarrow> (string \<times> pyval) list \<Rightarrow> MCPResponse" where
  "normalize_dict_with_marker B d =
    (let success0 = dict_get d ''success'' (PBool True);
         success1 = (if dict_has d ''_mcp_status'' \<and> dict_get d ''_mcp_status'' PNone = PStr ''error''
                     then PBool False else success0);
         message1 = (if truthy (dict_get d ''message'' PNone)
                     then PStr (str_of B (Py (dict_get d ''message'' PNone))) else PNone);
         error1 = (if truthy (dict_get d ''error'' PNone)
                   then PStr (str_of B (Py (dict_get d ''error'' PNone))) else PNone);
         data0 = dict_get d ''data'' PNone;
         data1 = (if \<not> dict_has d ''success'' \<and> \<not> dict_has d ''_mcp_status'' then PDict d else data0)
     in \<lparr>success = success1, message = message1, error = error1, data = data1\<rparr>)"

definition is_dict :: "pyval \<Rightarrow> bool" where
  "is_dict v = (case v of PDict d \<Rightarrow> True | _ \<Rightarrow> False)"

definition items :: "pyval \<Rightarrow> (string \<times> pyval) list" where
  "items v = (case v of PDict d \<Rightarrow> d | _ \<Rightarrow> [])"

definition normalize_response :: "builtins \<Rightarrow> response \<Rightarrow> MCPResponse" where
  "normalize_response B response =
    (case response of
       Resp r \<Rightarrow> r
     | Py v \<Rightarrow>
        (if is_dict v then
           (let d = items v in
            \<lparr>success = dict_get d ''success'' (PBool True),
             message = dict_get d ''message'' PNone,
             error = dict_get d ''error'' PNone,
             data = (if \<not> dict_has d ''data'' then dict_get d ''data'' (PDict d)
                     else dict_get d ''data'' PNone)\<rparr>)
         else if is_dict v then normalize_dict_with_marker B (items v)
         else \<lparr>success = PBool False, message = PStr (str_of B response),
               error = PNone, data = PNone\<rparr>))"

text \<open>\<^verbatim>\<open>_safe_response\<close>.\<close>

definition safe_response :: "builtins \<Rightarrow> response \<Rightarrow> pyval" where
  "safe_response B response =
    (case response of
       Py (PDict d) \<Rightarrow> PDict d
     | Py PNone \<Rightarrow> PNone
     | _ \<Rightarrow> PDict [(''message'', PStr (str_of B response))])"

section \<open>The collaborators outside the sources\<close>

text \<open>
  Every call that leaves the orchestrator (discovery, a dispatch to the host, the hub) is
  answered by the environment. The world is a clock and a count of the calls made so
  far; an oracle maps the number of the call to the time the call takes and to what it
  returns or raises (\<open>Raised s\<close>: an exception whose \<^verbatim>\<open>str()\<close> is \<open>s\<close>).
\<close>

datatype 'a outcome = Returned 'a | Raised string

record world =
  clock :: real
  tick :: nat

definition call :: "world \<Rightarrow> (nat \<Rightarrow> real \<times> 'a) \<Rightarrow> world \<times> 'a" where
  "call w f =
    (case f (tick w) of
       (elapsed, r) \<Rightarrow> (w\<lparr>clock := clock w + elapsed, tick := Suc (tick w)\<rparr>, r))"

text \<open>\<^verbatim>\<open>await asyncio.sleep(d)\<close>: the clock moves on by \<open>d\<close> (not at all for \<open>d \<le> 0\<close>); what
  the scheduler adds is part of the time the next call takes.\<close>

definition sleep :: "world \<Rightarrow> real \<Rightarrow> world" where
  "sleep w d = w\<lparr>clock := clock w + max 0 d\<rparr>"

text \<open>
  Modelled from the spec: the instance tuples of the discovery pool (their class is not
  among the sources): name, path and hash, and the id the sources read as \<^verbatim>\<open>inst.id\<close>.
\<close>

record unity_instance =
  inst_id :: string
  inst_name :: string
  inst_path :: string
  inst_hash :: string

text \<open>
  Modelled from the spec: \<^verbatim>\<open>ToolParameterModel\<close> and \<^verbatim>\<open>ToolDefinitionModel\<close> of
  \<^verbatim>\<open>models/models.py\<close>, with the fields the spec lists. Their validating constructors
  are parameters (record \<open>models\<close> below).
\<close>

record ToolParameterModel =
  param_name :: string
  param_description :: "string option"
  param_type :: string
  param_required :: bool
  param_default_value :: "string option"

record ToolDefinitionModel =
  name :: string
  description :: "string option"
  structured_output :: bool
  requires_polling :: bool
  poll_action :: "string option"
  parameters :: "ToolParameterModel list"

record RegisterToolsPayload =
  project_id :: string
  project_hash :: "string option"
  tools :: "ToolDefinitionModel list"

text \<open>The pydantic constructors: \<open>None\<close> is \<^verbatim>\<open>ValidationError\<close>; \<open>model_validate\<close> gives
  the payload or \<^verbatim>\<open>exc.errors()\<close>.\<close>

record models =
  new_ToolParameterModel ::
    "pyval \<Rightarrow> pyval \<Rightarrow> pyval \<Rightarrow> pyval \<Rightarrow> pyval \<Rightarrow> ToolParameterModel option"
  new_ToolDefinitionModel ::
    "pyval \<Rightarrow> pyval \<Rightarrow> pyval \<Rightarrow> pyval \<Rightarrow> pyval \<Rightarrow> ToolParameterModel list
      \<Rightarrow> ToolDefinitionModel option"
  model_validate :: "pyval \<Rightarrow> pyval + RegisterToolsPayload"

text \<open>
  The environment: the variable that selects the transport, and one oracle for each
  function of a collaborator that the sources call: the discovery of the connection
  pool, \<^verbatim>\<open>async_send_command_with_retry\<close> (command, parameters, the \<^verbatim>\<open>instance_id\<close> keyword
  where it is passed), and of the hub \<^verbatim>\<open>send_command_for_instance\<close>,
  \<^verbatim>\<open>get_tools_for_project\<close> and \<^verbatim>\<open>get_tool_definition\<close>; and \<^verbatim>\<open>normalize_unity_response\<close>.
\<close>

record env =
  UNITY_MCP_TRANSPORT :: "string option"
  discover_all_instances :: "nat \<Rightarrow> real \<times> unity_instance list outcome"
  async_send_command_with_retry ::
    "nat \<Rightarrow> string \<Rightarrow> (string \<times> pyval) list \<Rightarrow> string option \<Rightarrow> real \<times> response outcome"
  send_command_for_instance ::
    "nat \<Rightarrow> string option \<Rightarrow> string \<Rightarrow> (string \<times> pyval) list \<Rightarrow> real \<times> pyval outcome"
  normalize_unity_response :: "pyval \<Rightarrow> response"
  get_tools_for_project :: "nat \<Rightarrow> string \<Rightarrow> real \<times> ToolDefinitionModel list outcome"
  hub_get_tool_definition ::
    "nat \<Rightarrow> string \<Rightarrow> string \<Rightarrow> real \<times> ToolDefinitionModel option outcome"

section \<open>Strings\<close>

definition ascii_lowercase :: string where
  "ascii_lowercase = ''abcdefghijklmnopqrstuvwxyz''"

definition ascii_uppercase :: string where
  "ascii_uppercase = ''ABCDEFGHIJKLMNOPQRSTUVWXYZ''"

definition lower_char :: "char \<Rightarrow> char" where
  "lower_char c = (case map_of (zip ascii_uppercase ascii_lowercase) c of None \<Rightarrow> c | Some l \<Rightarrow> l)"

definition upper_char :: "char \<Rightarrow> char" where
  "upper_char c = (case map_of (zip ascii_lowercase ascii_uppercase) c of None \<Rightarrow> c | Some u \<Rightarrow> u)"

text \<open>\<^verbatim>\<open>s.lower()\<close> and \<^verbatim>\<open>s.upper()\<close>, on the ASCII letters.\<close>

definition lower :: "string \<Rightarrow> string" where
  "lower s = map lower_char s"

definition upper :: "string \<Rightarrow> string" where
  "upper s = map upper_char s"

text \<open>\<^verbatim>\<open>sep.join(xs)\<close> and \<^verbatim>\<open>str(n)\<close> for a length.\<close>

fun join :: "string \<Rightarrow> string list \<Rightarrow> string" where
  "join sep [] = []"
| "join sep [x] = x"
| "join sep (x # y # xs) = x @ sep @ join sep (y # xs)"

fun str_nat :: "nat \<Rightarrow> string" where
  "str_nat n =
    (if n < 10 then [''0123456789'' ! n] else str_nat (n div 10) @ [''0123456789'' ! (n mod 10)])"

declare str_nat.simps [simp del]

text \<open>\<^verbatim>\<open>s.partition("@")\<close>: the parts before and after the first \<^verbatim>\<open>@\<close>.\<close>

definition partition_at :: "string \<Rightarrow> string \<times> string" where
  "partition_at s = (takeWhile (\<lambda>c. c \<noteq> CHR ''@'') s, drop 1 (dropWhile (\<lambda>c. c \<noteq> CHR ''@'') s))"

definition startswith :: "string \<Rightarrow> string \<Rightarrow> bool" where
  "startswith s p = (take (length p) s = p)"


section \<open>SHA-256\<close>

text \<open>
  \<^verbatim>\<open>hashlib.sha256(b).hexdigest()\<close>, after FIPS 180-4: the message is padded to whole
  64-byte blocks, each block is expanded to 64 words and compressed into the state of
  eight 32-bit words, and the digest is the state in lower-case hexadecimal.
\<close>

type_synonym w32 = "32 word"

definition K256 :: "w32 list" where
  "K256 =
    [1116352408, 1899447441, 3049323471, 3921009573, 961987163, 1508970993,
     2453635748, 2870763221, 3624381080, 310598401, 607225278, 1426881987,
     1925078388, 2162078206, 2614888103, 3248222580, 3835390401, 4022224774,
     264347078, 604807628, 770255983, 1249150122, 1555081692, 1996064986,
     2554220882, 2821834349, 2952996808, 3210313671, 3336571891, 3584528711,
     113926993, 338241895, 666307205, 773529912, 1294757372, 1396182291,
     1695183700, 1986661051, 2177026350, 2456956037, 2730485921, 2820302411,
     3259730800, 3345764771, 3516065817, 3600352804, 4094571909, 275423344,
     430227734, 506948616, 659060556, 883997877, 958139571, 1322822218,
     1537002063, 1747873779, 1955562222, 2024104815, 2227730452, 2361852424,
     2428436474, 2756734187, 3204031479, 3329325298]"

type_synonym sha_state = "w32 \<times> w32 \<times> w32 \<times> w32 \<times> w32 \<times> w32 \<times> w32 \<times> w32"

definition H256 :: sha_state where
  "H256 = (1779033703, 3144134277, 1013904242, 2773480762,
           1359893119, 2600822924, 528734635, 1541459225)"

definition rotr :: "nat \<Rightarrow> w32 \<Rightarrow> w32" where
  "rotr n x = drop_bit n x OR push_bit (32 - n) x"

definition ch :: "w32 \<Rightarrow> w32 \<Rightarrow> w32 \<Rightarrow> w32" where
  "ch x y z = (x AND y) XOR (NOT x AND z)"

definition maj :: "w32 \<Rightarrow> w32 \<Rightarrow> w32 \<Rightarrow> w32" where
  "maj x y z = (x AND y) XOR (x AND z) XOR (y AND z)"

definition bsig0 :: "w32 \<Rightarrow> w32" where
  "bsig0 x = rotr 2 x XOR rotr 13 x XOR rotr 22 x"

definition bsig1 :: "w32 \<Rightarrow> w32" where
  "bsig1 x = rotr 6 x XOR rotr 11 x XOR rotr 25 x"

definition ssig0 :: "w32 \<Rightarrow> w32" where
  "ssig0 x = rotr 7 x XOR rotr 18 x XOR drop_bit 3 x"

definition ssig1 :: "w32 \<Rightarrow> w32" where
  "ssig1 x = rotr 17 x XOR rotr 19 x XOR drop_bit 10 x"

text \<open>Padding: the byte 0x80, zero bytes up to 56 modulo 64, the bit length in 8 bytes.\<close>

definition be_bytes :: "nat \<Rightarrow> nat \<Rightarrow> nat list" where
  "be_bytes k n = map (\<lambda>i. (n div 256 ^ (k - 1 - i)) mod 256) [0..<k]"

definition sha_pad :: "nat list \<Rightarrow> nat list" where
  "sha_pad bs =
     bs @ [128] @ replicate ((119 - length bs mod 64) mod 64) 0 @ be_bytes 8 (8 * length bs)"

fun be_words :: "nat list \<Rightarrow> w32 list" where
  "be_words (a # b # c # d # bs) =
     of_nat (((a * 256 + b) * 256 + c) * 256 + d) # be_words bs"
| "be_words bs = []"

fun blocks :: "nat \<Rightarrow> 'a list \<Rightarrow> 'a list list" where
  "blocks 0 xs = []"
| "blocks (Suc n) xs = take 16 xs # blocks n (drop 16 xs)"

fun schedule :: "nat \<Rightarrow> w32 list \<Rightarrow> w32 list" where
  "schedule 0 ws = ws"
| "schedule (Suc n) ws =
     (let t = length ws in
      schedule n (ws @ [ssig1 (ws ! (t - 2)) + ws ! (t - 7) + ssig0 (ws ! (t - 15)) + ws ! (t - 16)]))"

fun sha_round :: "sha_state \<Rightarrow> w32 \<times> w32 \<Rightarrow> sha_state" where
  "sha_round (a, b, c, d, e, f, g, h) (k, w) =
     (let t1 = h + bsig1 e + ch e f g + k + w;
          t2 = bsig0 a + maj a b c
      in (t1 + t2, a, b, c, d + t1, e, f, g))"

fun sha_add :: "sha_state \<Rightarrow> sha_state \<Rightarrow> sha_state" where
  "sha_add (a, b, c, d, e, f, g, h) (a', b', c', d', e', f', g', h') =
     (a + a', b + b', c + c', d + d', e + e', f + f', g + g', h + h')"

definition sha_block :: "sha_state \<Rightarrow> w32 list \<Rightarrow> sha_state" where
  "sha_block st m = sha_add st (foldl sha_round st (zip K256 (schedule 48 m)))"

definition sha256 :: "nat list \<Rightarrow> sha_state" where
  "sha256 bs =
     (let ws = be_words (sha_pad bs) in foldl sha_block H256 (blocks (length ws div 16) ws))"

definition hex_digit :: "nat \<Rightarrow> char" where
  "hex_digit n = ''0123456789abcdef'' ! (n mod 16)"

definition hex32 :: "w32 \<Rightarrow> string" where
  "hex32 x = map (\<lambda>i. hex_digit (unat (drop_bit (28 - 4 * i) x))) [0..<8]"

fun hexdigest :: "sha_state \<Rightarrow> string" where
  "hexdigest (a, b, c, d, e, f, g, h) = concat (map hex32 [a, b, c, d, e, f, g, h])"

definition sha256_hexdigest :: "string \<Rightarrow> string" where
  "sha256_hexdigest s = hexdigest (sha256 (map of_char s))"

section \<open>Project identifiers\<close>

text \<open>\<^verbatim>\<open>compute_project_id\<close>. A string is its UTF-8 bytes, so \<^verbatim>\<open>encode("utf-8")\<close> is the
  identity.\<close>

definition compute_project_id :: "string \<Rightarrow> string \<Rightarrow> string" where
  "compute_project_id project_name project_path =
    (let combined = project_name @ '':'' @ project_path
     in take 16 (upper (sha256_hexdigest combined)))"

section \<open>The tool registry\<close>

text \<open>The state of the service: tools per project (each project's dict in insertion order),
  the hash table, and the time of the last sync.\<close>

record service =
  project_tools :: "string \<Rightarrow> (string \<times> ToolDefinitionModel) list option"
  hash_to_project :: "string \<Rightarrow> string option"
  last_sync_time :: real

definition sync_interval :: real where
  "sync_interval = 5"

text \<open>\<^verbatim>\<open>self._project_tools.get(project_id, {})\<close>.\<close>

definition tools_of :: "service \<Rightarrow> string \<Rightarrow> (string \<times> ToolDefinitionModel) list" where
  "tools_of s pid = (case project_tools s pid of None \<Rightarrow> [] | Some ts \<Rightarrow> ts)"

definition is_registered :: "service \<Rightarrow> string \<Rightarrow> string \<Rightarrow> bool" where
  "is_registered s pid tool_name = dict_has (tools_of s pid) tool_name"

definition register_tool :: "service \<Rightarrow> string \<Rightarrow> ToolDefinitionModel \<Rightarrow> service" where
  "register_tool s pid defn =
    s\<lparr>project_tools := (project_tools s)(pid \<mapsto> dict_set (tools_of s pid) (name defn) defn)\<rparr>"

definition get_project_id_for_hash :: "service \<Rightarrow> string option \<Rightarrow> string option" where
  "get_project_id_for_hash s h =
    (case h of
       None \<Rightarrow> None
     | Some hash \<Rightarrow> if hash = [] then None else hash_to_project s (lower hash))"

subsection \<open>Batch registration\<close>

record JSONResponse =
  content :: pyval
  status_code :: nat

fun register_each ::
  "service \<Rightarrow> string \<Rightarrow> ToolDefinitionModel list \<Rightarrow> string list \<Rightarrow> string list
    \<Rightarrow> service \<times> string list \<times> string list" where
  "register_each s pid [] registered replaced = (s, registered, replaced)"
| "register_each s pid (tool # rest) registered replaced =
    (let replaced' = (if is_registered s pid (name tool) then replaced @ [name tool] else replaced);
         s' = register_tool s pid tool
     in register_each s' pid rest (registered @ [name tool]) replaced')"

text \<open>The route \<^verbatim>\<open>/register-tools\<close>, on the decoded body of the request.\<close>

definition register_tools :: "models \<Rightarrow> service \<Rightarrow> pyval \<Rightarrow> service \<times> JSONResponse" where
  "register_tools M s request_json =
    (case model_validate M request_json of
       Inl errors \<Rightarrow>
         (s, \<lparr>content = PDict [(''success'', PBool False), (''error'', errors)], status_code = 400\<rparr>)
     | Inr payload \<Rightarrow>
         (case register_each s (project_id payload) (tools payload) [] [] of
            (s1, registered, replaced) \<Rightarrow>
              (let s2 = (case project_hash payload of
                           None \<Rightarrow> s1
                         | Some h \<Rightarrow>
                             if h \<noteq> [] then
                               s1\<lparr>hash_to_project := (hash_to_project s1)(lower h \<mapsto> project_id payload)\<rparr>
                             else s1);
                   message0 = ''Registered '' @ str_nat (length registered) @ '' tool(s)'';
                   message1 = (if replaced \<noteq> [] then
                                 message0 @ '' (replaced: '' @ join '', '' replaced @ '')''
                               else message0)
               in (s2, \<lparr>content = PDict [(''success'', PBool True),
                                          (''registered'', PList (map PStr registered)),
                                          (''replaced'', PList (map PStr replaced)),
                                          (''message'', PStr message1)],
                        status_code = 200\<rparr>))))"

subsection \<open>Sync with the live instances\<close>

text \<open>Iterating a value (\<open>None\<close>: \<^verbatim>\<open>TypeError\<close>, it is not iterable) and \<^verbatim>\<open>k in x\<close> for a
  string \<open>k\<close> (\<open>None\<close>: \<^verbatim>\<open>TypeError\<close>).\<close>

fun py_iter :: "pyval \<Rightarrow> pyval list option" where
  "py_iter (PList xs) = Some xs"
| "py_iter (PDict d) = Some (map (\<lambda>kv. PStr (fst kv)) d)"
| "py_iter (PStr s) = Some (map (\<lambda>c. PStr [c]) s)"
| "py_iter v = None"

fun py_in :: "string \<Rightarrow> pyval \<Rightarrow> bool option" where
  "py_in k (PDict d) = Some (dict_has d k)"
| "py_in k (PList xs) = Some (PStr k \<in> set xs)"
| "py_in k (PStr s) = Some (sublist k s)"
| "py_in k v = None"

text \<open>What building a model from a descriptor can raise: \<^verbatim>\<open>ValidationError\<close>, which the
  loop over the tools handles, or anything else (\<^verbatim>\<open>KeyError\<close>, \<^verbatim>\<open>TypeError\<close>,
  \<^verbatim>\<open>AttributeError\<close>), which ends the sync of the instance.\<close>

datatype fault = ValidationError | OtherError

definition build_param :: "models \<Rightarrow> pyval \<Rightarrow> fault + ToolParameterModel" where
  "build_param M p =
    (case p of
       PDict d \<Rightarrow>
         (case map_of d ''name'' of
            None \<Rightarrow> Inl OtherError
          | Some n \<Rightarrow>
              (case new_ToolParameterModel M n (dict_get d ''description'' PNone)
                      (dict_get d ''type'' (PStr ''string'')) (dict_get d ''required'' (PBool True))
                      (dict_get d ''default_value'' PNone) of
                 None \<Rightarrow> Inl ValidationError
               | Some pm \<Rightarrow> Inr pm))
     | _ \<Rightarrow> Inl OtherError)"

fun build_params :: "models \<Rightarrow> pyval list \<Rightarrow> ToolParameterModel list \<Rightarrow> fault + ToolParameterModel list" where
  "build_params M [] params_models = Inr params_models"
| "build_params M (p # ps) params_models =
    (case build_param M p of
       Inl e \<Rightarrow> Inl e
     | Inr pm \<Rightarrow> build_params M ps (params_models @ [pm]))"

text \<open>One descriptor of the reply: \<open>None\<close> when an exception other than
  \<^verbatim>\<open>ValidationError\<close> leaves the loop over the tools, else the service to go on with.\<close>

definition sync_tool :: "models \<Rightarrow> string \<Rightarrow> service \<Rightarrow> pyval \<Rightarrow> service option" where
  "sync_tool M pid s tool_data =
    (case py_in ''name'' tool_data of
       None \<Rightarrow> None
     | Some False \<Rightarrow> Some s
     | Some True \<Rightarrow>
        (case tool_data of
           PDict d \<Rightarrow>
             (case py_iter (dict_get d ''parameters'' (PList [])) of
                None \<Rightarrow> None
              | Some ps \<Rightarrow>
                 (case build_params M ps [] of
                    Inl ValidationError \<Rightarrow> Some s
                  | Inl OtherError \<Rightarrow> None
                  | Inr params_models \<Rightarrow>
                     (case new_ToolDefinitionModel M (dict_get d ''name'' PNone)
                             (dict_get d ''description'' PNone)
                             (dict_get d ''structured_output'' (PBool True))
                             (dict_get d ''requires_polling'' (PBool False))
                             (dict_get d ''poll_action'' (PStr ''status'')) params_models of
                        None \<Rightarrow> Some s
                      | Some defn \<Rightarrow>
                          if truthy (dict_get d ''auto_register'' (PBool True))
                          then Some (register_tool s pid defn) else Some s)))
         | _ \<Rightarrow> None))"

fun sync_tools :: "models \<Rightarrow> string \<Rightarrow> service \<Rightarrow> pyval list \<Rightarrow> service" where
  "sync_tools M pid s [] = s"
| "sync_tools M pid s (tool_data # rest) =
    (case sync_tool M pid s tool_data of
       None \<Rightarrow> s
     | Some s' \<Rightarrow> sync_tools M pid s' rest)"

definition sync_instance :: "models \<Rightarrow> env \<Rightarrow> world \<times> service \<Rightarrow> unity_instance \<Rightarrow> world \<times> service" where
  "sync_instance M E ws inst =
    (case ws of (w, s) \<Rightarrow>
      (case call w (\<lambda>k. async_send_command_with_retry E k ''list_csharp_tools'' [] (Some (inst_id inst))) of
         (w', Raised ex) \<Rightarrow> (w', s)
       | (w', Returned response) \<Rightarrow>
          (case response of
             Py (PDict d) \<Rightarrow>
               if \<not> dict_has d ''tools'' then (w', s)
               else
                 (let pid = compute_project_id (inst_name inst) (inst_path inst) in
                  case py_iter (dict_get d ''tools'' PNone) of
                    None \<Rightarrow> (w', s)
                  | Some tool_list \<Rightarrow> (w', sync_tools M pid s tool_list))
           | _ \<Rightarrow> (w', s))))"

text \<open>\<^verbatim>\<open>_sync_all_unity_tools\<close>.\<close>

definition sync_all_unity_tools :: "models \<Rightarrow> env \<Rightarrow> bool \<Rightarrow> world \<times> service \<Rightarrow> world \<times> service" where
  "sync_all_unity_tools M E force ws =
    (case ws of (w, s) \<Rightarrow>
      if \<not> force \<and> clock w - last_sync_time s < sync_interval then (w, s)
      else
        (let s1 = s\<lparr>last_sync_time := clock w\<rparr> in
         case call w (discover_all_instances E) of
           (w1, Raised e) \<Rightarrow> (w1, s1)
         | (w1, Returned instances) \<Rightarrow> foldl (sync_instance M E) (w1, s1) instances))"

text \<open>\<^verbatim>\<open>list_registered_tools\<close>.\<close>

definition list_registered_tools ::
  "models \<Rightarrow> env \<Rightarrow> world \<times> service \<Rightarrow> string \<Rightarrow> (world \<times> service) \<times> ToolDefinitionModel list outcome" where
  "list_registered_tools M E ws pid =
    (case sync_all_unity_tools M E False ws of (w1, s1) \<Rightarrow>
      (let legacy = map snd (tools_of s1 pid) in
       case call w1 (\<lambda>k. get_tools_for_project E k pid) of
         (w2, Raised e) \<Rightarrow> ((w2, s1), Raised e)
       | (w2, Returned hub_tools) \<Rightarrow> ((w2, s1), Returned (legacy @ hub_tools))))"

text \<open>\<^verbatim>\<open>get_tool_definition\<close>.\<close>

definition get_tool_definition ::
  "models \<Rightarrow> env \<Rightarrow> world \<times> service \<Rightarrow> string \<Rightarrow> string
    \<Rightarrow> (world \<times> service) \<times> ToolDefinitionModel option outcome" where
  "get_tool_definition M E ws pid tool_name =
    (case map_of (tools_of (snd ws) pid) tool_name of
       Some tool \<Rightarrow> (ws, Returned (Some tool))
     | None \<Rightarrow>
        (case sync_all_unity_tools M E False ws of (w1, s1) \<Rightarrow>
          (case map_of (tools_of s1 pid) tool_name of
             Some tool \<Rightarrow> ((w1, s1), Returned (Some tool))
           | None \<Rightarrow>
              (case call w1 (\<lambda>k. hub_get_tool_definition E k pid tool_name) of
                 (w2, r) \<Rightarrow> ((w2, s1), r)))))"


section \<open>The execution orchestrator: dispatch and the poll loop\<close>

text \<open>
  \<^verbatim>\<open>send_with_unity_instance(async_send_command_with_retry, unity_instance, command_type,
  params)\<close>, as the orchestrator calls it: with a command and a dict of parameters, so that
  the two checks of the HTTP path on its arguments pass.
\<close>

definition is_http_transport :: "env \<Rightarrow> bool" where
  "is_http_transport E =
    (lower (case UNITY_MCP_TRANSPORT E of None \<Rightarrow> ''stdio'' | Some v \<Rightarrow> v) = ''http'')"

definition send_with_unity_instance ::
  "env \<Rightarrow> world \<Rightarrow> string option \<Rightarrow> string \<Rightarrow> (string \<times> pyval) list \<Rightarrow> world \<times> response outcome" where
  "send_with_unity_instance E w unity_instance command_type params =
    (if is_http_transport E then
       (case call w (\<lambda>k. send_command_for_instance E k unity_instance command_type params) of
          (w', Raised e) \<Rightarrow> (w', Raised e)
        | (w', Returned raw) \<Rightarrow> (w', Returned (normalize_unity_response E raw)))
     else
       call w (\<lambda>k. async_send_command_with_retry E k command_type params
                 (case unity_instance of
                    None \<Rightarrow> None
                  | Some u \<Rightarrow> if u \<noteq> [] then Some u else None)))"

text \<open>The response that stands in for a poll that raised \<open>exc\<close>.\<close>

definition retry_response :: "real \<Rightarrow> string \<Rightarrow> response" where
  "retry_response poll_interval exc =
    Py (PDict [(''_mcp_status'', PStr ''pending''),
               (''_mcp_poll_interval'', PFloat (Fin (min (max (poll_interval * 2) DEFAULT_POLL_INTERVAL) 5))),
               (''message'', PStr (''Retrying after transient error: '' @ exc))])"

definition timeout_response :: "builtins \<Rightarrow> string \<Rightarrow> response \<Rightarrow> MCPResponse" where
  "timeout_response B tool_name response =
    \<lparr>success = PBool False,
     message = PStr (''Timeout waiting for '' @ tool_name @ '' to complete''),
     error = PNone,
     data = safe_response B response\<rparr>"

text \<open>
  The \<^verbatim>\<open>while True\<close> loop of \<^verbatim>\<open>_poll_until_complete\<close>, one iteration per unit of fuel;
  \<open>None\<close> when the fuel runs out before the loop returns. The result carries the world
  at the return, hence the time of the return.
\<close>

fun poll_loop ::
  "builtins \<Rightarrow> env \<Rightarrow> string \<Rightarrow> string option \<Rightarrow> (string \<times> pyval) list \<Rightarrow> real \<Rightarrow> nat \<Rightarrow> world
    \<Rightarrow> response \<Rightarrow> (world \<times> (exn + MCPResponse)) option" where
  "poll_loop B E tool_name unity_instance poll_params deadline 0 w response = None"
| "poll_loop B E tool_name unity_instance poll_params deadline (Suc fuel) w response =
    (case interpret_status B response of
       Inl e \<Rightarrow> Some (w, Inl e)
     | Inr (status, poll_interval) \<Rightarrow>
         if status \<in> set [''complete'', ''error'', ''final''] then
           Some (w, Inr (normalize_response B response))
         else if clock w > deadline then
           Some (w, Inr (timeout_response B tool_name response))
         else
           (case send_with_unity_instance E (sleep w poll_interval) unity_instance tool_name poll_params of
              (w', Returned r) \<Rightarrow>
                poll_loop B E tool_name unity_instance poll_params deadline fuel w' r
            | (w', Raised exc) \<Rightarrow>
                poll_loop B E tool_name unity_instance poll_params deadline fuel w'
                  (retry_response poll_interval exc)))"

definition poll_until_complete ::
  "builtins \<Rightarrow> env \<Rightarrow> nat \<Rightarrow> string \<Rightarrow> string option \<Rightarrow> (string \<times> pyval) list \<Rightarrow> world \<Rightarrow> response
    \<Rightarrow> string \<Rightarrow> (world \<times> (exn + MCPResponse)) option" where
  "poll_until_complete B E fuel tool_name unity_instance initial_params w initial_response action =
    (let poll_params = dict_set initial_params ''action'' (PStr (if action \<noteq> [] then action else ''status''));
         deadline = clock w + MAX_POLL_SECONDS
     in poll_loop B E tool_name unity_instance poll_params deadline fuel w initial_response)"

definition not_found_response :: "string \<Rightarrow> string \<Rightarrow> MCPResponse" where
  "not_found_response tool_name pid =
    \<lparr>success = PBool False,
     message = PStr (''Tool '' @ [CHR 0x27] @ tool_name @ [CHR 0x27] @ '' not found for project '' @ pid),
     error = PNone,
     data = PNone\<rparr>"

text \<open>The first lines of \<^verbatim>\<open>execute_tool\<close>: look the definition up, and where there is none,
  force a sync and look it up once more.\<close>

definition lookup_definition ::
  "models \<Rightarrow> env \<Rightarrow> world \<times> service \<Rightarrow> string \<Rightarrow> string
    \<Rightarrow> (world \<times> service) \<times> ToolDefinitionModel option outcome" where
  "lookup_definition M E ws pid tool_name =
    (case get_tool_definition M E ws pid tool_name of
       (ws1, Raised e) \<Rightarrow> (ws1, Raised e)
     | (ws1, Returned (Some d)) \<Rightarrow> (ws1, Returned (Some d))
     | (ws1, Returned None) \<Rightarrow>
         get_tool_definition M E (sync_all_unity_tools M E True ws1) pid tool_name)"

text \<open>\<^verbatim>\<open>execute_tool\<close>. An exception of the hub or of the first dispatch is not handled
  here and leaves the function.\<close>

definition execute_tool ::
  "models \<Rightarrow> builtins \<Rightarrow> env \<Rightarrow> nat \<Rightarrow> world \<times> service \<Rightarrow> string \<Rightarrow> string \<Rightarrow> string option
    \<Rightarrow> (string \<times> pyval) list option \<Rightarrow> ((world \<times> service) \<times> (exn + MCPResponse)) option" where
  "execute_tool M B E fuel ws pid tool_name unity_instance params0 =
    (let params = (case params0 of None \<Rightarrow> [] | Some d \<Rightarrow> d) in
     case lookup_definition M E ws pid tool_name of
       (ws2, Raised e) \<Rightarrow> Some (ws2, Inl (Exception e))
     | (ws2, Returned None) \<Rightarrow> Some (ws2, Inr (not_found_response tool_name pid))
     | (ws2, Returned (Some defn)) \<Rightarrow>
        (case send_with_unity_instance E (fst ws2) unity_instance tool_name params of
           (w3, Raised e) \<Rightarrow> Some ((w3, snd ws2), Inl (Exception e))
         | (w3, Returned response) \<Rightarrow>
            if \<not> requires_polling defn then
              Some ((w3, snd ws2), Inr (normalize_response B response))
            else
              (case poll_until_complete B E fuel tool_name unity_instance params w3 response
                      (case poll_action defn of
                         None \<Rightarrow> ''status''
                       | Some a \<Rightarrow> if a \<noteq> [] then a else ''status'') of
                 None \<Rightarrow> None
               | Some (w4, r) \<Rightarrow> Some ((w4, snd ws2), r))))"

section \<open>Resolving an instance token\<close>

text \<open>\<^verbatim>\<open>resolve_project_id_for_unity_instance\<close>. \<open>discovered\<close> is what
  \<^verbatim>\<open>get_unity_connection_pool().discover_all_instances()\<close> returns or raises, \<open>svc\<close> the
  service singleton (\<open>None\<close> before it is initialized, where \<^verbatim>\<open>get_instance\<close> raises).\<close>

definition resolve_project_id_for_unity_instance ::
  "unity_instance list outcome \<Rightarrow> service option \<Rightarrow> string option \<Rightarrow> string option" where
  "resolve_project_id_for_unity_instance discovered svc unity_instance0 =
    (case unity_instance0 of
       None \<Rightarrow> None
     | Some unity_instance \<Rightarrow>
        (let target =
               (case discovered of
                  Raised e \<Rightarrow> None
                | Returned instances \<Rightarrow>
                    if CHR ''@'' \<in> set unity_instance then
                      (case partition_at unity_instance of
                         (name_part, hash_hint) \<Rightarrow>
                           find (\<lambda>inst. inst_name inst = name_part \<and> startswith (inst_hash inst) hash_hint)
                             instances)
                    else
                      find (\<lambda>inst. inst_id inst = unity_instance \<or> startswith (inst_hash inst) unity_instance)
                        instances)
         in case target of
              Some t \<Rightarrow> Some (compute_project_id (inst_name t) (inst_path t))
            | None \<Rightarrow>
               (let hash_part =
                      (if CHR ''@'' \<in> set unity_instance then
                         (case partition_at unity_instance of
                            (name_part, hash_suffix) \<Rightarrow> if hash_suffix \<noteq> [] then Some hash_suffix else None)
                       else Some unity_instance)
                in case hash_part of
                     None \<Rightarrow> None
                   | Some h \<Rightarrow>
                      if h = [] then None
                      else
                        (let lowered = lower h;
                             mapped = (case svc of
                                         None \<Rightarrow> None
                                       | Some s \<Rightarrow> get_project_id_for_hash s (Some lowered))
                         in case mapped of
                              None \<Rightarrow> Some lowered
                            | Some m \<Rightarrow> if m \<noteq> [] then Some m else Some lowered))))"


section \<open>Connections\<close>

text \<open>
  The two connection classes talk to the operating system and, through it, to the host.
  What the system calls return is scripted: the outcome of each successive call of a
  kind is the next entry of a list (an exhausted list of outcomes is success, an
  exhausted list of reads is the end of the stream). The bytes written are recorded.
\<close>

datatype io_error =
    ConnectionError string
  | BrokenPipeError string
  | ConnectionResetError string
  | OSError string
  | PywinError nat string
  | StructError
  | UnicodeDecodeError
  | JSONDecodeError
  | AttributeError
  | NameError
  | HostException pyval

text \<open>\<^verbatim>\<open>json.dumps(x).encode("utf-8")\<close> and \<^verbatim>\<open>json.loads(b.decode("utf-8"))\<close> are parameters.\<close>

record codec =
  json_dumps :: "pyval \<Rightarrow> string"
  json_loads :: "string \<Rightarrow> io_error + pyval"

definition next_outcome :: "'a option list \<Rightarrow> 'a option \<times> 'a option list" where
  "next_outcome xs = (case xs of [] \<Rightarrow> (None, []) | x # rest \<Rightarrow> (x, rest))"

text \<open>A read of at most \<open>n\<close> bytes from a script of arrivals.\<close>

definition read_some :: "('e + string) list \<Rightarrow> nat \<Rightarrow> ('e + string) list \<times> ('e + string)" where
  "read_some script n =
    (case script of
       [] \<Rightarrow> ([], Inr [])
     | Inl e # rest \<Rightarrow> (rest, Inl e)
     | Inr bs # rest \<Rightarrow>
         if length bs \<le> n then (rest, Inr bs) else (Inr (drop n bs) # rest, Inr (take n bs)))"

text \<open>\<^verbatim>\<open>struct.pack(">Q", n)\<close> (\<^verbatim>\<open>struct.error\<close> from \<open>2 ^ 64\<close> on) and
  \<^verbatim>\<open>struct.unpack(">Q", b)[0]\<close> on 8 bytes.\<close>

definition pack_Q :: "nat \<Rightarrow> io_error + string" where
  "pack_Q n = (if 2 ^ 64 \<le> n then Inl StructError else Inr (map char_of (be_bytes 8 n)))"

definition unpack_Q :: "string \<Rightarrow> nat" where
  "unpack_Q b = foldl (\<lambda>a c. a * 256 + of_char c) 0 b"

text \<open>What both variants do with the decoded body of a reply.\<close>

definition unwrap_reply :: "string \<Rightarrow> pyval \<Rightarrow> io_error + pyval" where
  "unwrap_reply command_type resp_json =
    (case resp_json of
       PDict d \<Rightarrow>
         if dict_get d ''status'' PNone = PStr ''error'' then Inl (HostException (dict_get d ''error'' PNone))
         else if command_type = ''ping'' then Inr (PDict [(''message'', PStr ''pong'')])
         else Inr (dict_get d ''result'' (PDict []))
     | _ \<Rightarrow> Inl AttributeError)"

definition make_payload :: "codec \<Rightarrow> string \<Rightarrow> (string \<times> pyval) list option \<Rightarrow> string" where
  "make_payload C command_type params =
    (if command_type = ''ping'' then
       json_dumps C (PDict [(''type'', PStr ''ping''), (''params'', PDict [])])
     else
       json_dumps C (PDict [(''type'', PStr command_type),
                            (''params'', PDict (case params of None \<Rightarrow> [] | Some d \<Rightarrow> d))]))"

subsection \<open>The Unix domain socket variant\<close>













subsection \<open>The named pipe variant\<close>

text \<open>\<open>has_win32\<close> is \<^verbatim>\<open>_HAS_WIN32\<close>: whether the import of the win32 bindings succeeded.\<close>

record pipe_os =
  has_win32 :: bool
  wait_script :: "io_error option list"
  create_script :: "io_error option list"
  write_script :: "io_error option list"
  read_script :: "(io_error + string) list"
  closehandle_script :: "io_error option list"
  written :: "string list"

datatype handle = Handle string

record UnityPipeConnection =
  pipe_project_hash :: string
  pipe_handle :: "handle option"

definition pipe_name :: "UnityPipeConnection \<Rightarrow> string" where
  "pipe_name c = [CHR 0x5C, CHR 0x5C] @ ''.'' @ [CHR 0x5C] @ ''pipe'' @ [CHR 0x5C] @ ''UnityMCP.'' @ pipe_project_hash c"

definition ReadFile :: "pipe_os \<Rightarrow> nat \<Rightarrow> pipe_os \<times> (io_error + string)" where
  "ReadFile os n = (case read_some (read_script os) n of (script, r) \<Rightarrow> (os\<lparr>read_script := script\<rparr>, r))"

definition WriteFile :: "pipe_os \<Rightarrow> string \<Rightarrow> pipe_os \<times> io_error option" where
  "WriteFile os b =
    (case next_outcome (write_script os) of
       (Some e, rest) \<Rightarrow> (os\<lparr>write_script := rest\<rparr>, Some e)
     | (None, rest) \<Rightarrow> (os\<lparr>write_script := rest, written := written os @ [b]\<rparr>, None))"

definition pipe_connect :: "UnityPipeConnection \<Rightarrow> pipe_os \<Rightarrow> (UnityPipeConnection \<times> pipe_os) \<times> bool" where
  "pipe_connect c os =
    (if \<not> has_win32 os then ((c, os), False)
     else if pipe_handle c \<noteq> None then ((c, os), True)
     else
       (case next_outcome (wait_script os) of
          (Some e, rest) \<Rightarrow>
            (case e of
               PywinError winerror m \<Rightarrow>
                 if winerror = 2 then ((c, os\<lparr>wait_script := rest\<rparr>), False)
                 else ((c\<lparr>pipe_handle := None\<rparr>, os\<lparr>wait_script := rest\<rparr>), False)
             | _ \<Rightarrow> ((c\<lparr>pipe_handle := None\<rparr>, os\<lparr>wait_script := rest\<rparr>), False))
        | (None, rest) \<Rightarrow>
            (case next_outcome (create_script os) of
               (Some e, rest') \<Rightarrow>
                 ((c\<lparr>pipe_handle := None\<rparr>, os\<lparr>wait_script := rest, create_script := rest'\<rparr>), False)
             | (None, rest') \<Rightarrow>
                 (case ReadFile (os\<lparr>wait_script := rest, create_script := rest'\<rparr>) 64 of
                    (os', Inl e) \<Rightarrow> ((c\<lparr>pipe_handle := None\<rparr>, os'), False)
                  | (os', Inr welcome) \<Rightarrow>
                      ((c\<lparr>pipe_handle := Some (Handle (pipe_name c))\<rparr>, os'), True)))))"

definition pipe_disconnect :: "UnityPipeConnection \<Rightarrow> pipe_os \<Rightarrow> UnityPipeConnection \<times> pipe_os" where
  "pipe_disconnect c os =
    (if pipe_handle c \<noteq> None then
       (c\<lparr>pipe_handle := None\<rparr>, os\<lparr>closehandle_script := snd (next_outcome (closehandle_script os))\<rparr>)
     else (c, os))"

definition pipe_exchange :: "codec \<Rightarrow> pipe_os \<Rightarrow> string \<Rightarrow> string \<Rightarrow> pipe_os \<times> (io_error + pyval)" where
  "pipe_exchange C os command_type payload =
    (case pack_Q (length payload) of
       Inl e \<Rightarrow> (os, Inl e)
     | Inr header \<Rightarrow>
        (case WriteFile os header of
           (os1, Some e) \<Rightarrow> (os1, Inl e)
         | (os1, None) \<Rightarrow>
            (case WriteFile os1 payload of
               (os2, Some e) \<Rightarrow> (os2, Inl e)
             | (os2, None) \<Rightarrow>
                (case ReadFile os2 8 of
                   (os3, Inl e) \<Rightarrow> (os3, Inl e)
                 | (os3, Inr resp_header) \<Rightarrow>
                    if length resp_header < 8 then
                      (os3, Inl (ConnectionError ''Pipe closed or incomplete header''))
                    else
                      (case ReadFile os3 (unpack_Q resp_header) of
                         (os4, Inl e) \<Rightarrow> (os4, Inl e)
                       | (os4, Inr resp_body) \<Rightarrow>
                          (case json_loads C resp_body of
                             Inl e \<Rightarrow> (os4, Inl e)
                           | Inr resp_json \<Rightarrow> (os4, unwrap_reply command_type resp_json)))))))"

text \<open>
  \<^verbatim>\<open>send_command\<close> of the pipe variant. Without the win32 bindings the first call of
  the \<^verbatim>\<open>try\<close> raises \<^verbatim>\<open>NameError\<close>, and so does the lookup of \<^verbatim>\<open>pywintypes.error\<close> in the
  first \<^verbatim>\<open>except\<close> clause, which leaves the function before any handler runs.
\<close>

definition pipe_send_command ::
  "codec \<Rightarrow> UnityPipeConnection \<Rightarrow> pipe_os \<Rightarrow> string \<Rightarrow> (string \<times> pyval) list option
    \<Rightarrow> (UnityPipeConnection \<times> pipe_os) \<times> (io_error + pyval)" where
  "pipe_send_command C c os command_type params =
    (case (if pipe_handle c = None then pipe_connect c os else ((c, os), True)) of
       ((c1, os1), False) \<Rightarrow> ((c1, os1), Inl (ConnectionError ''Not connected to Unity Pipe''))
     | ((c1, os1), True) \<Rightarrow>
        if \<not> has_win32 os1 then ((c1, os1), Inl NameError)
        else
          (case pipe_exchange C os1 command_type (make_payload C command_type params) of
             (os2, Inr result) \<Rightarrow> ((c1, os2), Inr result)
           | (os2, Inl e) \<Rightarrow>
              (case e of
                 PywinError winerror m \<Rightarrow>
                   (pipe_disconnect c1 os2, Inl (ConnectionError (''Pipe broken: '' @ m)))
               | _ \<Rightarrow> (pipe_disconnect c1 os2, Inl e))))"


text \<open>
  A pipe connection holds a handle only if \<^verbatim>\<open>connect\<close> has set it, hence only where the
  win32 bindings are present. The constructor establishes this, and the three methods
  keep it (\<open>pipe_invariant_kept\<close> below).
\<close>

definition pipe_invariant :: "UnityPipeConnection \<Rightarrow> pipe_os \<Rightarrow> bool" where
  "pipe_invariant c os = (pipe_handle c = None \<or> has_win32 os)"

section \<open>The resolution as the specification words it\<close>

text \<open>The hash portion of a token (the part after the first \<^verbatim>\<open>@\<close>, or the whole token),
  the instances a token matches (by name and hash prefix in the composite form, by id or
  hash prefix in the bare form), the first discovered match, and the hub's table.\<close>

definition hash_portion :: "string \<Rightarrow> string" where
  "hash_portion tok = (if CHR ''@'' \<in> set tok then snd (partition_at tok) else tok)"

definition token_matches :: "string \<Rightarrow> unity_instance \<Rightarrow> bool" where
  "token_matches tok inst =
    (if CHR ''@'' \<in> set tok then
       inst_name inst = fst (partition_at tok) \<and> startswith (inst_hash inst) (snd (partition_at tok))
     else inst_id inst = tok \<or> startswith (inst_hash inst) tok)"

definition discovered_match :: "unity_instance list outcome \<Rightarrow> string \<Rightarrow> unity_instance option" where
  "discovered_match discovered tok =
    (case discovered of Raised e \<Rightarrow> None | Returned instances \<Rightarrow> find (token_matches tok) instances)"

definition hub_mapping :: "service option \<Rightarrow> string \<Rightarrow> string option" where
  "hub_mapping svc h = (case svc of None \<Rightarrow> None | Some s \<Rightarrow> hash_to_project s h)"

section \<open>The listing as the specification words it\<close>

text \<open>\<^verbatim>\<open>listTools\<close> in the words of the specification: force a sync, then concatenate the
  local tools of the project and the hub's.\<close>

definition list_tools_forced ::
  "models \<Rightarrow> env \<Rightarrow> world \<times> service \<Rightarrow> string \<Rightarrow> (world \<times> service) \<times> ToolDefinitionModel list outcome" where
  "list_tools_forced M E ws pid =
    (case sync_all_unity_tools M E True ws of (w1, s1) \<Rightarrow>
      (case call w1 (\<lambda>k. get_tools_for_project E k pid) of
         (w2, Raised e) \<Rightarrow> ((w2, s1), Raised e)
       | (w2, Returned hub_tools) \<Rightarrow> ((w2, s1), Returned (map snd (tools_of s1 pid) @ hub_tools))))"

section \<open>A concrete environment\<close>

text \<open>The parameters of the model, fixed for the examples: a \<^verbatim>\<open>float()\<close> that reads
  decimal digits, constructors that accept exactly the declared types, an empty service,
  and hosts with a fixed behaviour.\<close>

definition digits_float :: "string \<Rightarrow> pyfloat option" where
  "digits_float s =
    (if s \<noteq> [] \<and> list_all (\<lambda>c. c \<in> set ''0123456789'') s
     then Some (Fin (of_nat (foldl (\<lambda>a c. 10 * a + (of_char c - 48)) 0 s)))
     else None)"

definition example_builtins :: builtins where
  "example_builtins = \<lparr>float_of_str = digits_float, str_of = (\<lambda>r. ''<object>'')\<rparr>"

definition as_opt_str :: "pyval \<Rightarrow> string option option" where
  "as_opt_str v = (case v of PNone \<Rightarrow> Some None | PStr s \<Rightarrow> Some (Some s) | _ \<Rightarrow> None)"

definition strict_parameter ::
  "pyval \<Rightarrow> pyval \<Rightarrow> pyval \<Rightarrow> pyval \<Rightarrow> pyval \<Rightarrow> ToolParameterModel option" where
  "strict_parameter n d t r dv =
    (case (n, as_opt_str d, t, r, as_opt_str dv) of
       (PStr n', Some d', PStr t', PBool r', Some dv') \<Rightarrow>
         Some \<lparr>param_name = n', param_description = d', param_type = t', param_required = r',
               param_default_value = dv'\<rparr>
     | _ \<Rightarrow> None)"

definition strict_definition ::
  "pyval \<Rightarrow> pyval \<Rightarrow> pyval \<Rightarrow> pyval \<Rightarrow> pyval \<Rightarrow> ToolParameterModel list \<Rightarrow> ToolDefinitionModel option" where
  "strict_definition n d so rp pa ps =
    (case (n, as_opt_str d, so, rp, as_opt_str pa) of
       (PStr n', Some d', PBool so', PBool rp', Some pa') \<Rightarrow>
         Some \<lparr>name = n', description = d', structured_output = so', requires_polling = rp',
               poll_action = pa', parameters = ps\<rparr>
     | _ \<Rightarrow> None)"

definition strict_parameter_of_json :: "pyval \<Rightarrow> ToolParameterModel option" where
  "strict_parameter_of_json v =
    (case v of
       PDict d \<Rightarrow>
         strict_parameter (dict_get d ''name'' PNone) (dict_get d ''description'' PNone)
           (dict_get d ''type'' (PStr ''string'')) (dict_get d ''required'' (PBool True))
           (dict_get d ''default_value'' PNone)
     | _ \<Rightarrow> None)"

definition strict_tool_of_json :: "pyval \<Rightarrow> ToolDefinitionModel option" where
  "strict_tool_of_json v =
    (case v of
       PDict d \<Rightarrow>
         (case dict_get d ''parameters'' (PList []) of
            PList ps \<Rightarrow>
              (case those (map strict_parameter_of_json ps) of
                 Some pms \<Rightarrow>
                   strict_definition (dict_get d ''name'' PNone) (dict_get d ''description'' PNone)
                     (dict_get d ''structured_output'' (PBool True))
                     (dict_get d ''requires_polling'' (PBool False))
                     (dict_get d ''poll_action'' PNone) pms
               | None \<Rightarrow> None)
          | _ \<Rightarrow> None)
     | _ \<Rightarrow> None)"

definition strict_validate :: "pyval \<Rightarrow> pyval + RegisterToolsPayload" where
  "strict_validate v =
    (case v of
       PDict d \<Rightarrow>
         (case (dict_get d ''project_id'' PNone, as_opt_str (dict_get d ''project_hash'' PNone),
                dict_get d ''tools'' PNone) of
            (PStr pid, Some h, PList ts) \<Rightarrow>
              (case those (map strict_tool_of_json ts) of
                 Some ts' \<Rightarrow> Inr \<lparr>project_id = pid, project_hash = h, tools = ts'\<rparr>
               | None \<Rightarrow> Inl (PList [PStr ''tools: invalid entry'']))
          | _ \<Rightarrow> Inl (PList [PStr ''payload: missing or ill-typed field'']))
     | _ \<Rightarrow> Inl (PList [PStr ''payload: not an object'']))"

definition strict_models :: models where
  "strict_models =
    \<lparr>new_ToolParameterModel = strict_parameter,
     new_ToolDefinitionModel = strict_definition,
     model_validate = strict_validate\<rparr>"

definition empty_service :: service where
  "empty_service = \<lparr>project_tools = (\<lambda>pid. None), hash_to_project = (\<lambda>h. None), last_sync_time = 0\<rparr>"

definition tool_named :: "string \<Rightarrow> bool \<Rightarrow> ToolDefinitionModel" where
  "tool_named n polling =
    \<lparr>name = n, description = None, structured_output = True, requires_polling = polling,
     poll_action = None, parameters = []\<rparr>"

text \<open>A host on the stdio path that answers every dispatch after 10 ms with the given
  reply, and offers one instance with one tool to the sync.\<close>

definition host_replying :: "response \<Rightarrow> env" where
  "host_replying reply =
    \<lparr>UNITY_MCP_TRANSPORT = None,
     discover_all_instances =
       (\<lambda>k. (0, Returned [\<lparr>inst_id = ''MyGame@ab12cd'', inst_name = ''MyGame'',
                             inst_path = ''/home/dev/MyGame'', inst_hash = ''ab12cd''\<rparr>])),
     async_send_command_with_retry =
       (\<lambda>k cmd ps inst.
          if cmd = ''list_csharp_tools'' then
            (1 / 100, Returned (Py (PDict [(''tools'', PList [PDict [(''name'', PStr ''jump'')]])])))
          else (1 / 100, Returned reply)),
     send_command_for_instance = (\<lambda>k inst cmd ps. (0, Raised ''hub not connected'')),
     normalize_unity_response = Py,
     get_tools_for_project = (\<lambda>k pid. (0, Returned [])),
     hub_get_tool_definition = (\<lambda>k pid n. (0, Returned None))\<rparr>"

definition pending_reply :: response where
  "pending_reply = Py (PDict [(''_mcp_status'', PStr ''pending''), (''_mcp_poll_interval'', PInt 5)])"





section \<open>Assumptions on the environment\<close>

text \<open>No dispatch takes a negative time: the clock does not run backwards.\<close>

definition time_flows :: "env \<Rightarrow> bool" where
  "time_flows E =
    (\<forall>k cmd ps inst. 0 \<le> fst (async_send_command_with_retry E k cmd ps inst)
                     \<and> 0 \<le> fst (send_command_for_instance E k inst cmd ps))"

text \<open>Every dispatch of the tool is answered, and the answer is classified as pending.\<close>

definition always_pending :: "builtins \<Rightarrow> env \<Rightarrow> string option \<Rightarrow> string \<Rightarrow> bool" where
  "always_pending B E unity_instance tool_name =
    (\<forall>w ps. \<exists>r p. snd (send_with_unity_instance E w unity_instance tool_name ps) = Returned r
                   \<and> interpret_status B r = Inr (''pending'', p))"

lemma clamp_interval_python:
  "Fin (clamp_interval f) = py_max (Fin (1 / 10)) (py_min f (Fin 5))"
  by (cases f) (auto simp: py_max_def py_min_def max_def min_def)

section \<open>Properties of the classifier and of the normalization\<close>

lemma clamp_interval_bounds: "1 / 10 \<le> clamp_interval f \<and> clamp_interval f \<le> 5"
  by (cases f) auto

lemma interpret_status_interval:
  assumes "interpret_status B r = Inr (st, p)"
  shows "1 / 10 \<le> p \<and> p \<le> 5"
proof -
  from assms have "p = 1 \<or> (\<exists>f. p = clamp_interval f)"
    by (auto simp: interpret_status_def Let_def DEFAULT_POLL_INTERVAL_def
        simp del: clamp_interval.simps
        split: if_splits response.splits pyval.splits sum.splits exn.splits)
  then show ?thesis
    using clamp_interval_bounds by auto
qed

lemma interpret_status_pending_shape:
  assumes "interpret_status B r = Inr (''pending'', p)"
  shows "r = Py (safe_response B r)"
  using assms
  by (auto simp: interpret_status_def safe_response_def Let_def
      split: if_splits response.splits pyval.splits)

lemma py_float_raises:
  assumes "py_float B v = Inl e"
  shows "e = TypeError \<or> e = ValueError \<or> e = OverflowError"
  using assms
  by (cases v) (auto simp: float_of_int_def split: if_splits option.splits)


text \<open>
  The table of the classifier on dicts, for every hint that \<^verbatim>\<open>float()\<close> converts or
  rejects with \<^verbatim>\<open>TypeError\<close> or \<^verbatim>\<open>ValueError\<close>: an empty dict is pending, a dict without
  a marker is final, a pending marker carries the clamped hint (1.0 when there is none or
  when it does not parse), and the other markers are complete, error and final.
\<close>

lemma interpret_status_table:
  "interpret_status B (Py (PDict [])) = Inr (''pending'', 1)"
  "d \<noteq> [] \<Longrightarrow> dict_get d ''_mcp_status'' PNone = PNone
     \<Longrightarrow> interpret_status B (Py (PDict d)) = Inr (''final'', 1)"
  "dict_get d ''_mcp_status'' PNone = PStr ''pending'' \<Longrightarrow> \<not> dict_has d ''_mcp_poll_interval''
     \<Longrightarrow> interpret_status B (Py (PDict d)) = Inr (''pending'', 1)"
  "dict_get d ''_mcp_status'' PNone = PStr ''pending'' \<Longrightarrow> map_of d ''_mcp_poll_interval'' = Some v
     \<Longrightarrow> py_float B v = Inr f
     \<Longrightarrow> interpret_status B (Py (PDict d)) = Inr (''pending'', clamp_interval f)"
  "dict_get d ''_mcp_status'' PNone = PStr ''pending'' \<Longrightarrow> map_of d ''_mcp_poll_interval'' = Some v
     \<Longrightarrow> py_float B v = Inl e \<Longrightarrow> e \<noteq> OverflowError
     \<Longrightarrow> interpret_status B (Py (PDict d)) = Inr (''pending'', 1)"
  "dict_get d ''_mcp_status'' PNone = PStr ''complete''
     \<Longrightarrow> interpret_status B (Py (PDict d)) = Inr (''complete'', 1)"
  "dict_get d ''_mcp_status'' PNone = PStr ''error''
     \<Longrightarrow> interpret_status B (Py (PDict d)) = Inr (''error'', 1)"
  "dict_get d ''_mcp_status'' PNone \<notin> {PNone, PStr ''pending'', PStr ''complete'', PStr ''error''}
     \<Longrightarrow> interpret_status B (Py (PDict d)) = Inr (''final'', 1)"
proof -
  show "interpret_status B (Py (PDict [])) = Inr (''pending'', 1)"
    by (simp add: interpret_status_def dict_get_def DEFAULT_POLL_INTERVAL_def)
  show "d \<noteq> [] \<Longrightarrow> dict_get d ''_mcp_status'' PNone = PNone
     \<Longrightarrow> interpret_status B (Py (PDict d)) = Inr (''final'', 1)"
    by (simp add: interpret_status_def DEFAULT_POLL_INTERVAL_def)
  show "dict_get d ''_mcp_status'' PNone = PStr ''pending'' \<Longrightarrow> \<not> dict_has d ''_mcp_poll_interval''
     \<Longrightarrow> interpret_status B (Py (PDict d)) = Inr (''pending'', 1)"
    by (simp add: interpret_status_def dict_has_def dict_get_def DEFAULT_POLL_INTERVAL_def)
  show "dict_get d ''_mcp_status'' PNone = PStr ''pending'' \<Longrightarrow> map_of d ''_mcp_poll_interval'' = Some v
     \<Longrightarrow> py_float B v = Inr f
     \<Longrightarrow> interpret_status B (Py (PDict d)) = Inr (''pending'', clamp_interval f)"
    by (simp add: interpret_status_def dict_get_def)
  show "dict_get d ''_mcp_status'' PNone = PStr ''pending'' \<Longrightarrow> map_of d ''_mcp_poll_interval'' = Some v
     \<Longrightarrow> py_float B v = Inl e \<Longrightarrow> e \<noteq> OverflowError
     \<Longrightarrow> interpret_status B (Py (PDict d)) = Inr (''pending'', 1)"
    using py_float_raises [of B v e]
    by (auto simp: interpret_status_def dict_get_def DEFAULT_POLL_INTERVAL_def)
  show "dict_get d ''_mcp_status'' PNone = PStr ''complete''
     \<Longrightarrow> interpret_status B (Py (PDict d)) = Inr (''complete'', 1)"
    by (simp add: interpret_status_def DEFAULT_POLL_INTERVAL_def)
  show "dict_get d ''_mcp_status'' PNone = PStr ''error''
     \<Longrightarrow> interpret_status B (Py (PDict d)) = Inr (''error'', 1)"
    by (simp add: interpret_status_def DEFAULT_POLL_INTERVAL_def)
  show "dict_get d ''_mcp_status'' PNone \<notin> {PNone, PStr ''pending'', PStr ''complete'', PStr ''error''}
     \<Longrightarrow> interpret_status B (Py (PDict d)) = Inr (''final'', 1)"
    by (simp add: interpret_status_def DEFAULT_POLL_INTERVAL_def)
qed

text \<open>The examples of the specification's table.\<close>

lemma interpret_status_examples:
  "interpret_status B (Py (PDict [(''_mcp_status'', PStr ''pending''), (''_mcp_poll_interval'', PInt 2)]))
     = Inr (''pending'', 2)"
  "interpret_status B (Py (PDict [(''_mcp_status'', PStr ''complete''), (''data'', PDict [(''x'', PInt 1)])]))
     = Inr (''complete'', 1)"
  "data (normalize_response B
      (Py (PDict [(''_mcp_status'', PStr ''complete''), (''data'', PDict [(''x'', PInt 1)])])))
     = PDict [(''x'', PInt 1)]"
  "interpret_status B (Py (PDict [(''_mcp_status'', PStr ''error'')])) = Inr (''error'', 1)"
  by (simp_all add: interpret_status_def normalize_response_def is_dict_def items_def dict_get_def
      dict_has_def float_of_int_def DEFAULT_POLL_INTERVAL_def)

text \<open>
  C1. A dict whose status marker is \<^verbatim>\<open>"error"\<close> and which has no \<^verbatim>\<open>success\<close> field is
  normalized by the first dict branch, which reads \<^verbatim>\<open>success\<close> with the default true
  and never looks at the marker: the result has \<open>success = True\<close>, not false.
\<close>

theorem normalize_response_ignores_error_marker:
  "normalize_response B (Py (PDict [(''_mcp_status'', PStr ''error'')])) =
     \<lparr>success = PBool True, message = PNone, error = PNone,
      data = PDict [(''_mcp_status'', PStr ''error'')]\<rparr>"
  by (simp add: normalize_response_def is_dict_def items_def dict_get_def dict_has_def)

text \<open>The branch that no dict reaches is the one that would have set \<open>success\<close> to false;
  and the first branch gives true to every dict without a \<^verbatim>\<open>success\<close> field.\<close>

lemma normalize_dict_with_marker_error:
  "success (normalize_dict_with_marker B [(''_mcp_status'', PStr ''error'')]) = PBool False"
  by (simp add: normalize_dict_with_marker_def dict_get_def dict_has_def)

lemma normalize_response_default_success:
  "\<not> dict_has d ''success'' \<Longrightarrow> success (normalize_response B (Py (PDict d))) = PBool True"
  by (simp add: normalize_response_def is_dict_def items_def dict_get_def dict_has_def)

text \<open>So a poll that the host answers with the bare error marker ends with a result whose
  \<open>success\<close> is true.\<close>

lemma poll_loop_error_marker:
  "poll_loop B E tool u pp deadline (Suc fuel) w (Py (PDict [(''_mcp_status'', PStr ''error'')]))
     = Some (w, Inr \<lparr>success = PBool True, message = PNone, error = PNone,
                      data = PDict [(''_mcp_status'', PStr ''error'')]\<rparr>)"
  by (simp add: interpret_status_def normalize_response_def is_dict_def items_def dict_get_def
      dict_has_def)

text \<open>
  C2. On a pending marker whose interval hint is an int too large for a float, the
  conversion raises \<^verbatim>\<open>OverflowError\<close>, which the handler for \<^verbatim>\<open>TypeError\<close> and
  \<^verbatim>\<open>ValueError\<close> does not catch: the classifier raises instead of returning a state.
  On every other dict the table holds (\<open>interpret_status_table\<close>).
\<close>

theorem interpret_status_overflow:
  "interpret_status B
     (Py (PDict [(''_mcp_status'', PStr ''pending''), (''_mcp_poll_interval'', PInt (2 ^ 1024))]))
   = Inl OverflowError"
  by (simp add: interpret_status_def dict_get_def float_of_int_def)

text \<open>
  C10. \<^verbatim>\<open>None\<close> is classified pending with the default interval of one second. Every
  response that is neither \<^verbatim>\<open>None\<close> nor a dict is classified final with the default
  interval, and the iteration of the poll loop that sees it returns its normalization.
\<close>

theorem non_dict_reply_is_final:
  "interpret_status B (Py PNone) = Inr (''pending'', DEFAULT_POLL_INTERVAL)
   \<and> DEFAULT_POLL_INTERVAL = 1
   \<and> (r \<noteq> Py PNone \<and> (\<forall>d. r \<noteq> Py (PDict d)) \<longrightarrow>
        interpret_status B r = Inr (''final'', DEFAULT_POLL_INTERVAL)
        \<and> poll_loop B E tool u pp deadline (Suc fuel) w r = Some (w, Inr (normalize_response B r)))"
proof -
  have a: "interpret_status B (Py PNone) = Inr (''pending'', DEFAULT_POLL_INTERVAL)"
    by (simp add: interpret_status_def)
  have b: "interpret_status B r = Inr (''final'', DEFAULT_POLL_INTERVAL)"
    if "r \<noteq> Py PNone" "\<forall>d. r \<noteq> Py (PDict d)"
    using that by (auto simp: interpret_status_def split: response.splits pyval.splits)
  have c: "poll_loop B E tool u pp deadline (Suc fuel) w r = Some (w, Inr (normalize_response B r))"
    if "interpret_status B r = Inr (''final'', DEFAULT_POLL_INTERVAL)"
    using that by simp
  from a b c show ?thesis
    by (simp add: DEFAULT_POLL_INTERVAL_def)
qed

theorem non_dict_reply_is_final_witness:
  "interpret_status example_builtins (Py (PStr ''done'')) = Inr (''final'', DEFAULT_POLL_INTERVAL)
   \<and> poll_loop example_builtins (host_replying pending_reply) ''build'' None [] 600 (Suc 0)
        \<lparr>clock = 0, tick = 0\<rparr> (Py (PStr ''done''))
      = Some (\<lparr>clock = 0, tick = 0\<rparr>,
              Inr \<lparr>success = PBool False, message = PStr ''<object>'', error = PNone, data = PNone\<rparr>)"
  using non_dict_reply_is_final [of example_builtins "Py (PStr ''done'')" "host_replying pending_reply"
      "''build''" None "[]" 600 0 "\<lparr>clock = 0, tick = 0\<rparr>"]
  by (simp add: normalize_response_def is_dict_def example_builtins_def)

section \<open>Properties of the poll loop\<close>

lemma call_clock:
  "0 \<le> fst (f (tick w)) \<Longrightarrow> clock w \<le> clock (fst (call w f))"
  by (simp add: call_def split_beta)

lemma send_world:
  "fst (send_with_unity_instance E w u cmd ps) =
     (if is_http_transport E then fst (call w (\<lambda>k. send_command_for_instance E k u cmd ps))
      else fst (call w (\<lambda>k. async_send_command_with_retry E k cmd ps
                 (case u of None \<Rightarrow> None | Some u \<Rightarrow> if u \<noteq> [] then Some u else None))))"
  by (simp add: send_with_unity_instance_def split: prod.splits outcome.splits)

lemma send_clock:
  assumes "time_flows E"
  shows "clock w \<le> clock (fst (send_with_unity_instance E w u cmd ps))"
  using assms unfolding send_world time_flows_def
  by (auto intro!: call_clock)

lemma sleep_clock: "clock (sleep w d) = clock w + max 0 d"
  by (simp add: sleep_def)

text \<open>An iteration that polls moves the clock on by at least a tenth of a second.\<close>

lemma poll_step_clock:
  assumes "time_flows E" "interpret_status B response = Inr (st, p)"
  shows "clock w + 1 / 10 \<le> clock (fst (send_with_unity_instance E (sleep w p) u cmd ps))"
proof -
  have "1 / 10 \<le> p" using interpret_status_interval [OF assms(2)] by simp
  then have "clock w + 1 / 10 \<le> clock (sleep w p)" by (simp add: sleep_clock)
  also have "\<dots> \<le> clock (fst (send_with_unity_instance E (sleep w p) u cmd ps))"
    by (rule send_clock [OF assms(1)])
  finally show ?thesis .
qed

text \<open>The number of tenths of a second left before the deadline decreases with it.\<close>

lemma measure_step:
  fixes c c' deadline :: real
  assumes "c \<le> deadline" "c + 1 / 10 \<le> c'"
  shows "nat \<lceil>(deadline - c') * 10 + 1\<rceil> < nat \<lceil>(deadline - c) * 10 + 1\<rceil>"
proof -
  have "(deadline - c') * 10 + 1 \<le> ((deadline - c) * 10 + 1) - 1"
    using assms by simp
  then have "\<lceil>(deadline - c') * 10 + 1\<rceil> \<le> \<lceil>((deadline - c) * 10 + 1) - 1\<rceil>"
    by (rule ceiling_mono)
  also have "\<dots> = \<lceil>(deadline - c) * 10 + 1\<rceil> - 1"
    by (rule ceiling_diff_one)
  finally have a: "\<lceil>(deadline - c') * 10 + 1\<rceil> < \<lceil>(deadline - c) * 10 + 1\<rceil>"
    by simp
  have "0 < (deadline - c) * 10 + 1"
    using assms by simp
  then have "0 < \<lceil>(deadline - c) * 10 + 1\<rceil>"
    by simp
  with a show ?thesis by simp
qed


text \<open>While every reply is pending the loop runs into the deadline: it returns the timeout
  result built from the last reply, at a time after the deadline.\<close>

lemma poll_loop_all_pending:
  assumes tf: "time_flows E" and ap: "always_pending B E u tool"
  shows "interpret_status B response = Inr (''pending'', p) \<Longrightarrow>
     \<exists>fuel w' r. poll_loop B E tool u pp deadline fuel w response
                    = Some (w', Inr (timeout_response B tool r))
        \<and> deadline < clock w' \<and> (\<exists>q. interpret_status B r = Inr (''pending'', q))
        \<and> ((w' = w \<and> r = response)
            \<or> (\<exists>v. send_with_unity_instance E v u tool pp = (w', Returned r)))"
proof (induction "nat \<lceil>(deadline - clock w) * 10 + 1\<rceil>" arbitrary: w response p rule: less_induct)
  case less
  note pend = less.prems
  show ?case
  proof (cases "deadline < clock w")
    case True
    have "poll_loop B E tool u pp deadline (Suc 0) w response
            = Some (w, Inr (timeout_response B tool response))"
      using pend True by simp
    with True pend show ?thesis by blast
  next
    case False
    obtain w1 out where snd1: "send_with_unity_instance E (sleep w p) u tool pp = (w1, out)"
      by (cases "send_with_unity_instance E (sleep w p) u tool pp")
    from ap obtain r1 q1 where out: "out = Returned r1"
      and pend1: "interpret_status B r1 = Inr (''pending'', q1)"
      using snd1 unfolding always_pending_def
      by (metis snd_conv)
    have "clock w + 1 / 10 \<le> clock w1"
      using poll_step_clock [OF tf pend, of w u tool pp] snd1 by simp
    with False have "nat \<lceil>(deadline - clock w1) * 10 + 1\<rceil> < nat \<lceil>(deadline - clock w) * 10 + 1\<rceil>"
      by (intro measure_step) simp_all
    from less.hyps [OF this pend1]
    obtain fuel w' r where run: "poll_loop B E tool u pp deadline fuel w1 r1
                    = Some (w', Inr (timeout_response B tool r))"
      and late: "deadline < clock w'" and pr: "\<exists>q. interpret_status B r = Inr (''pending'', q)"
      and last: "(w' = w1 \<and> r = r1) \<or> (\<exists>v. send_with_unity_instance E v u tool pp = (w', Returned r))"
      by blast
    have "poll_loop B E tool u pp deadline (Suc fuel) w response
            = Some (w', Inr (timeout_response B tool r))"
      using pend False snd1 out run by simp
    moreover have "\<exists>v. send_with_unity_instance E v u tool pp = (w', Returned r)"
      using last snd1 out by blast
    ultimately show ?thesis using late pr by blast
  qed
qed


text \<open>More fuel does not change what the loop returns.\<close>

lemma poll_loop_fuel_mono:
  "poll_loop B E tool u pp deadline fuel w r = Some x \<Longrightarrow>
   poll_loop B E tool u pp deadline (fuel + k) w r = Some x"
proof (induction fuel arbitrary: w r)
  case 0
  then show ?case by simp
next
  case (Suc fuel)
  from Suc.prems show ?case
    by (auto simp: Suc.IH split: sum.splits prod.splits if_splits outcome.splits)
qed

text \<open>Facts about the concrete hosts.\<close>

lemma host_replying_stdio: "\<not> is_http_transport (host_replying r)"
  by (simp add: is_http_transport_def host_replying_def lower_def lower_char_def
      ascii_uppercase_def ascii_lowercase_def)

lemma host_replying_send:
  "cmd \<noteq> ''list_csharp_tools'' \<Longrightarrow>
   send_with_unity_instance (host_replying r) w u cmd ps
     = (w\<lparr>clock := clock w + 1 / 100, tick := Suc (tick w)\<rparr>, Returned r)"
  unfolding send_with_unity_instance_def using host_replying_stdio [of r]
  by (simp add: call_def host_replying_def)

lemma host_replying_time_flows: "time_flows (host_replying r)"
  by (simp add: time_flows_def host_replying_def)

lemma pending_reply_status: "interpret_status B pending_reply = Inr (''pending'', 5)"
  by (simp add: interpret_status_def pending_reply_def dict_get_def float_of_int_def)





text \<open>
  C3. Let the lookup of \<^verbatim>\<open>execute_tool\<close> find a definition that requires polling, let
  the clock not run backwards, and let every dispatch of the tool be answered by a
  response classified as pending. Then \<^verbatim>\<open>execute_tool\<close> returns (with enough fuel the
  model does), and what it returns is not an exception but the result with
  \<open>success = False\<close> and the timeout message naming the tool; the clock at the return is
  more than 600 seconds after the clock at the start of the poll loop; and the data of
  the result is the response returned by the dispatch that ended at the return, the last
  one.
\<close>

theorem execute_tool_times_out:
  "time_flows E \<and> always_pending B E u tool
     \<and> lookup_definition M E ws pid tool = (ws2, Returned (Some defn)) \<and> requires_polling defn \<longrightarrow>
   (\<exists>fuel w3 r0 w' v.
      send_with_unity_instance E (fst ws2) u tool (case params of None \<Rightarrow> [] | Some d \<Rightarrow> d)
        = (w3, Returned r0)
      \<and> execute_tool M B E fuel ws pid tool u params
          = Some ((w', snd ws2),
                  Inr \<lparr>success = PBool False,
                       message = PStr (''Timeout waiting for '' @ tool @ '' to complete''),
                       error = PNone, data = v\<rparr>)
      \<and> clock w3 + MAX_POLL_SECONDS < clock w'
      \<and> (\<exists>w_prev ps. send_with_unity_instance E w_prev u tool ps = (w', Returned (Py v))))"
proof (intro impI, elim conjE)
  assume tf: "time_flows E" and ap: "always_pending B E u tool"
    and look: "lookup_definition M E ws pid tool = (ws2, Returned (Some defn))"
    and polling: "requires_polling defn"
  define params' where "params' = (case params of None \<Rightarrow> [] | Some d \<Rightarrow> d)"
  define action where "action = (case poll_action defn of None \<Rightarrow> ''status''
                                 | Some a \<Rightarrow> if a \<noteq> [] then a else ''status'')"
  define pp where "pp = dict_set params' ''action'' (PStr (if action \<noteq> [] then action else ''status''))"
  obtain w3 out where first: "send_with_unity_instance E (fst ws2) u tool params' = (w3, out)"
    by (cases "send_with_unity_instance E (fst ws2) u tool params'")
  from ap obtain r0 p0 where out: "out = Returned r0"
    and pend0: "interpret_status B r0 = Inr (''pending'', p0)"
    using first unfolding always_pending_def by (metis snd_conv)
  from poll_loop_all_pending [OF tf ap pend0, of pp "clock w3 + MAX_POLL_SECONDS" w3]
  obtain fuel w' r where run: "poll_loop B E tool u pp (clock w3 + MAX_POLL_SECONDS) fuel w3 r0
                    = Some (w', Inr (timeout_response B tool r))"
    and late: "clock w3 + MAX_POLL_SECONDS < clock w'"
    and pr: "\<exists>q. interpret_status B r = Inr (''pending'', q)"
    and last: "(w' = w3 \<and> r = r0) \<or> (\<exists>v. send_with_unity_instance E v u tool pp = (w', Returned r))"
    by blast
  from late have "w' \<noteq> w3"
    by (auto simp: MAX_POLL_SECONDS_def)
  with last obtain w_prev where prev: "send_with_unity_instance E w_prev u tool pp = (w', Returned r)"
    by blast
  from pr have shape: "r = Py (safe_response B r)"
    using interpret_status_pending_shape by blast
  have "execute_tool M B E fuel ws pid tool u params
          = Some ((w', snd ws2), Inr (timeout_response B tool r))"
    using look polling first out run
    by (simp add: execute_tool_def poll_until_complete_def params'_def [symmetric]
        action_def [symmetric] pp_def [symmetric])
  then have "execute_tool M B E fuel ws pid tool u params
          = Some ((w', snd ws2),
                  Inr \<lparr>success = PBool False,
                       message = PStr (''Timeout waiting for '' @ tool @ '' to complete''),
                       error = PNone, data = safe_response B r\<rparr>)"
    by (simp add: timeout_response_def)
  moreover have "send_with_unity_instance E w_prev u tool pp = (w', Returned (Py (safe_response B r)))"
    using prev shape by simp
  ultimately show "\<exists>fuel w3 r0 w' v.
      send_with_unity_instance E (fst ws2) u tool (case params of None \<Rightarrow> [] | Some d \<Rightarrow> d)
        = (w3, Returned r0)
      \<and> execute_tool M B E fuel ws pid tool u params
          = Some ((w', snd ws2),
                  Inr \<lparr>success = PBool False,
                       message = PStr (''Timeout waiting for '' @ tool @ '' to complete''),
                       error = PNone, data = v\<rparr>)
      \<and> clock w3 + MAX_POLL_SECONDS < clock w'
      \<and> (\<exists>w_prev ps. send_with_unity_instance E w_prev u tool ps = (w', Returned (Py v)))"
    using first out late unfolding params'_def by blast
qed

lemma lookup_registered_tool:
  "lookup_definition M E (w, register_tool empty_service ''P'' (tool_named ''build'' True)) ''P'' ''build''
     = ((w, register_tool empty_service ''P'' (tool_named ''build'' True)),
        Returned (Some (tool_named ''build'' True)))"
  by (simp add: lookup_definition_def get_tool_definition_def tools_of_def register_tool_def
      empty_service_def tool_named_def)

theorem execute_tool_times_out_witness:
  "\<exists>fuel w3 r0 w' v.
      send_with_unity_instance (host_replying pending_reply) \<lparr>clock = 0, tick = 0\<rparr> None ''build'' []
        = (w3, Returned r0)
      \<and> execute_tool strict_models example_builtins (host_replying pending_reply) fuel
            (\<lparr>clock = 0, tick = 0\<rparr>, register_tool empty_service ''P'' (tool_named ''build'' True))
            ''P'' ''build'' None None
          = Some ((w', register_tool empty_service ''P'' (tool_named ''build'' True)),
                  Inr \<lparr>success = PBool False,
                       message = PStr ''Timeout waiting for build to complete'',
                       error = PNone, data = v\<rparr>)
      \<and> clock w3 + MAX_POLL_SECONDS < clock w'
      \<and> (\<exists>w_prev ps. send_with_unity_instance (host_replying pending_reply) w_prev None ''build'' ps
                        = (w', Returned (Py v)))"
proof -
  have ap: "always_pending example_builtins (host_replying pending_reply) None ''build''"
    by (simp add: always_pending_def host_replying_send pending_reply_status)
  have polling: "requires_polling (tool_named ''build'' True)"
    by (simp add: tool_named_def)
  show ?thesis
    using execute_tool_times_out [of "host_replying pending_reply" example_builtins None "''build''"
        strict_models "(\<lparr>clock = 0, tick = 0\<rparr>, register_tool empty_service ''P'' (tool_named ''build'' True))"
        "''P''" "(\<lparr>clock = 0, tick = 0\<rparr>, register_tool empty_service ''P'' (tool_named ''build'' True))"
        "tool_named ''build'' True" None]
    using host_replying_time_flows [of pending_reply] ap polling
      lookup_registered_tool [of strict_models "host_replying pending_reply" "\<lparr>clock = 0, tick = 0\<rparr>"]
    by simp
qed

section \<open>Properties of the project identifier\<close>










section \<open>Properties of the resolution of instance tokens\<close>

lemma lower_char_idem: "lower_char (lower_char c) = lower_char c"
proof (cases "map_of (zip ascii_uppercase ascii_lowercase) c")
  case None
  then show ?thesis by (simp add: lower_char_def)
next
  case (Some l)
  then have "l \<in> set ascii_lowercase"
    by (meson map_of_SomeD set_zip_rightD)
  moreover have "list_all (\<lambda>x. map_of (zip ascii_uppercase ascii_lowercase) x = None) ascii_lowercase"
    by (simp add: ascii_uppercase_def ascii_lowercase_def)
  ultimately have "map_of (zip ascii_uppercase ascii_lowercase) l = None"
    unfolding list_all_iff by blast
  with Some show ?thesis by (simp add: lower_char_def)
qed

lemma lower_idem: "lower (lower s) = lower s"
  by (simp add: lower_def lower_char_idem)

lemma lower_Nil: "lower s = [] \<longleftrightarrow> s = []"
  by (simp add: lower_def)

lemma resolve_target:
  "resolve_project_id_for_unity_instance discovered svc (Some tok) =
    (case discovered_match discovered tok of
       Some t \<Rightarrow> Some (compute_project_id (inst_name t) (inst_path t))
     | None \<Rightarrow>
        if hash_portion tok = [] then None
        else Some (case hub_mapping svc (lower (hash_portion tok)) of
                     None \<Rightarrow> lower (hash_portion tok)
                   | Some m \<Rightarrow> if m \<noteq> [] then m else lower (hash_portion tok)))"
proof -
  have m: "discovered_match discovered tok =
      (case discovered of
         Raised e \<Rightarrow> None
       | Returned instances \<Rightarrow>
           if CHR ''@'' \<in> set tok then
             (case partition_at tok of
                (name_part, hash_hint) \<Rightarrow>
                  find (\<lambda>inst. inst_name inst = name_part \<and> startswith (inst_hash inst) hash_hint)
                    instances)
           else find (\<lambda>inst. inst_id inst = tok \<or> startswith (inst_hash inst) tok) instances)"
    by (simp add: discovered_match_def token_matches_def [abs_def] split_beta split: outcome.splits)
  show ?thesis
    unfolding resolve_project_id_for_unity_instance_def option.case Let_def m [symmetric]
    by (cases "discovered_match discovered tok")
      (auto simp: hash_portion_def hub_mapping_def get_project_id_for_hash_def lower_idem lower_Nil
        split_beta split: option.splits)
qed

text \<open>
  C5, amended. The resolution returns null for the null token, and for a token exactly
  when no discovered instance matches it and its hash portion is empty. A token that
  matches a discovered instance resolves to the computed identifier of the first match.
  A token that matches none and has a non-empty hash portion resolves to the hub's
  non-empty mapping of the lower-cased hash portion, or else to the lower-cased hash
  portion itself.
\<close>

theorem resolve_project_id_cases:
  "resolve_project_id_for_unity_instance discovered svc None = None
   \<and> (resolve_project_id_for_unity_instance discovered svc (Some tok) = None
        \<longleftrightarrow> discovered_match discovered tok = None \<and> hash_portion tok = [])
   \<and> (discovered_match discovered tok = Some t \<longrightarrow>
        resolve_project_id_for_unity_instance discovered svc (Some tok)
          = Some (compute_project_id (inst_name t) (inst_path t)))
   \<and> (discovered_match discovered tok = None \<and> hash_portion tok \<noteq> [] \<longrightarrow>
        resolve_project_id_for_unity_instance discovered svc (Some tok)
          = Some (case hub_mapping svc (lower (hash_portion tok)) of
                    None \<Rightarrow> lower (hash_portion tok)
                  | Some m \<Rightarrow> if m \<noteq> [] then m else lower (hash_portion tok)))"
proof -
  have "resolve_project_id_for_unity_instance discovered svc None = None"
    by (simp add: resolve_project_id_for_unity_instance_def)
  then show ?thesis
    unfolding resolve_target
    by (cases "discovered_match discovered tok") simp_all
qed

text \<open>The instance of the examples, and the tokens of the specification's examples.\<close>

lemma partition_at_examples:
  "partition_at ''MyGame@ab12'' = (''MyGame'', ''ab12'')"
  "partition_at ''MyGame@'' = (''MyGame'', '''')"
  by (simp_all add: partition_at_def)

theorem resolve_project_id_cases_witness:
  "resolve_project_id_for_unity_instance
      (Returned [\<lparr>inst_id = ''MyGame@ab12cd'', inst_name = ''MyGame'',
                  inst_path = ''/home/dev/MyGame'', inst_hash = ''ab12cd''\<rparr>])
      (Some empty_service) (Some ''MyGame@ab12'')
     = Some (compute_project_id ''MyGame'' ''/home/dev/MyGame'')
   \<and> resolve_project_id_for_unity_instance (Returned []) (Some empty_service) (Some ''Other@CD34'')
     = Some ''cd34''"
proof -
  let ?inst = "\<lparr>inst_id = ''MyGame@ab12cd'', inst_name = ''MyGame'',
                 inst_path = ''/home/dev/MyGame'', inst_hash = ''ab12cd''\<rparr>"
  have a: "discovered_match (Returned [?inst]) ''MyGame@ab12'' = Some ?inst"
    by (simp add: discovered_match_def token_matches_def partition_at_def startswith_def)
  have b: "discovered_match (Returned []) ''Other@CD34'' = None"
    by (simp add: discovered_match_def)
  have c: "hash_portion ''Other@CD34'' = ''CD34''"
    by (simp add: hash_portion_def partition_at_def)
  have d: "lower ''CD34'' = ''cd34''"
    by (simp add: lower_def lower_char_def ascii_uppercase_def ascii_lowercase_def)
  show ?thesis
    using resolve_project_id_cases [of "Returned [?inst]" "Some empty_service" "''MyGame@ab12''" ?inst]
      resolve_project_id_cases [of "Returned []" "Some empty_service" "''Other@CD34''"]
    by (simp add: a b c d hub_mapping_def empty_service_def)
qed

text \<open>C5 as stated fails: a token that is not null, matches no instance and ends
  in its first \<^verbatim>\<open>@\<close>, or is empty, resolves to null.\<close>

theorem resolve_project_id_null_for_nonnull_token:
  "resolve_project_id_for_unity_instance (Returned []) (Some empty_service) (Some ''MyGame@'') = None
   \<and> resolve_project_id_for_unity_instance (Returned []) (Some empty_service) (Some '''') = None"
  by (simp add: resolve_project_id_for_unity_instance_def partition_at_def)

section \<open>Properties of the tool registry\<close>

lemma map_of_dict_set: "map_of (dict_set d k v) k' = (if k' = k then Some v else map_of d k')"
  by (induction d) auto

lemma tools_of_register_tool:
  "tools_of (register_tool s pid defn) pid' =
     (if pid' = pid then dict_set (tools_of s pid) (name defn) defn else tools_of s pid')"
  by (simp add: tools_of_def register_tool_def)

lemma hash_to_project_register_tool: "hash_to_project (register_tool s pid defn) = hash_to_project s"
  by (simp add: register_tool_def)

text \<open>The loop of the route: every name is appended to \<open>registered\<close>, the names already
  present to \<open>replaced\<close>, and the registry ends with the last definition of each name.\<close>

lemma register_each_registered:
  "fst (snd (register_each s pid ts registered replaced)) = registered @ map name ts"
  by (induction ts arbitrary: s registered replaced) (simp_all add: Let_def)

lemma register_each_hash:
  "hash_to_project (fst (register_each s pid ts registered replaced)) = hash_to_project s"
  by (induction ts arbitrary: s registered replaced)
    (simp_all add: Let_def hash_to_project_register_tool)

lemma find_app:
  "find P (xs @ ys) = (case find P xs of None \<Rightarrow> find P ys | Some x \<Rightarrow> Some x)"
  by (induction xs) auto

lemma register_each_lookup:
  "map_of (tools_of (fst (register_each s pid ts registered replaced)) pid) n =
     (case find (\<lambda>t. name t = n) (rev ts) of
        Some t \<Rightarrow> Some t
      | None \<Rightarrow> map_of (tools_of s pid) n)"
proof (induction ts arbitrary: s registered replaced)
  case Nil
  show ?case by simp
next
  case (Cons t ts)
  show ?case
    by (simp add: Let_def Cons.IH tools_of_register_tool map_of_dict_set find_app
        split: option.splits)
qed

lemma register_tools_valid:
  assumes "model_validate M req = Inr payload"
  shows "fst (register_tools M s req) =
      (let s1 = fst (register_each s (project_id payload) (tools payload) [] []) in
       case project_hash payload of
         None \<Rightarrow> s1
       | Some h \<Rightarrow> if h \<noteq> [] then s1\<lparr>hash_to_project := (hash_to_project s1)(lower h \<mapsto> project_id payload)\<rparr>
                   else s1)"
  using assms by (simp add: register_tools_def Let_def split_beta)

lemma tools_of_hash_update: "tools_of (s\<lparr>hash_to_project := h\<rparr>) pid = tools_of s pid"
  by (simp add: tools_of_def)

lemma register_tools_lookup:
  assumes "model_validate M req = Inr payload"
  shows "map_of (tools_of (fst (register_tools M s req)) (project_id payload)) n =
     (case find (\<lambda>t. name t = n) (rev (tools payload)) of
        Some t \<Rightarrow> Some t
      | None \<Rightarrow> map_of (tools_of s (project_id payload)) n)"
  unfolding register_tools_valid [OF assms]
  by (simp add: Let_def tools_of_hash_update register_each_lookup split: option.splits)

lemma register_tools_hash:
  assumes "model_validate M req = Inr payload"
  shows "hash_to_project (fst (register_tools M s req)) =
     (case project_hash payload of
        None \<Rightarrow> hash_to_project s
      | Some h \<Rightarrow> if h \<noteq> [] then (hash_to_project s)(lower h \<mapsto> project_id payload)
                  else hash_to_project s)"
  unfolding register_tools_valid [OF assms]
  by (simp add: Let_def register_each_hash split: option.splits)

lemma register_tools_single:
  assumes "model_validate M req = Inr \<lparr>project_id = P, project_hash = h, tools = [t]\<rparr>"
  shows "content (snd (register_tools M s req)) =
     PDict [(''success'', PBool True),
            (''registered'', PList [PStr (name t)]),
            (''replaced'', PList (if is_registered s P (name t) then [PStr (name t)] else [])),
            (''message'', PStr (if is_registered s P (name t)
                                then ''Registered 1 tool(s) (replaced: '' @ name t @ '')''
                                else ''Registered 1 tool(s)''))]"
  using assms by (simp add: register_tools_def Let_def str_nat.simps)

lemma is_registered_after:
  assumes "model_validate M req = Inr payload" "t \<in> set (tools payload)"
  shows "is_registered (fst (register_tools M s req)) (project_id payload) (name t)"
proof -
  have "find (\<lambda>x. name x = name t) (rev (tools payload)) \<noteq> None"
    using assms(2) by (auto simp: find_None_iff)
  then show ?thesis
    unfolding is_registered_def dict_has_def register_tools_lookup [OF assms(1)]
    by (auto split: option.splits)
qed

text \<open>
  C7, amended. For a valid payload: every incoming definition is upserted, whatever its
  classification (afterwards each incoming name is registered, and the definition
  stored under a name is the last incoming one of that name); a non-empty project hash
  is recorded lower-cased, over any earlier mapping, while an absent or empty one
  leaves the hash table as it was. Registering the single tool \<^verbatim>\<open>move\<close> for a project
  that does not have it answers \<^verbatim>\<open>registered = ["move"]\<close>, \<^verbatim>\<open>replaced = []\<close>; doing it again
  answers \<^verbatim>\<open>registered = ["move"]\<close>, \<^verbatim>\<open>replaced = ["move"]\<close> and a message that contains
  \<^verbatim>\<open>replaced: move\<close>.
\<close>

theorem register_tools_upserts:
  "(model_validate M req = Inr payload \<longrightarrow>
      (\<forall>t \<in> set (tools payload).
          is_registered (fst (register_tools M s req)) (project_id payload) (name t))
      \<and> (\<forall>n. map_of (tools_of (fst (register_tools M s req)) (project_id payload)) n =
            (case find (\<lambda>t. name t = n) (rev (tools payload)) of
               Some t \<Rightarrow> Some t
             | None \<Rightarrow> map_of (tools_of s (project_id payload)) n))
      \<and> (\<forall>h. project_hash payload = Some h \<and> h \<noteq> [] \<longrightarrow>
            hash_to_project (fst (register_tools M s req)) (lower h) = Some (project_id payload))
      \<and> (project_hash payload = None \<or> project_hash payload = Some [] \<longrightarrow>
            hash_to_project (fst (register_tools M s req)) = hash_to_project s))
   \<and> (model_validate M req = Inr \<lparr>project_id = P, project_hash = h0, tools = [move]\<rparr>
        \<and> name move = ''move'' \<and> \<not> is_registered s P ''move'' \<longrightarrow>
      content (snd (register_tools M s req)) =
        PDict [(''success'', PBool True), (''registered'', PList [PStr ''move'']),
               (''replaced'', PList []), (''message'', PStr ''Registered 1 tool(s)'')]
      \<and> content (snd (register_tools M (fst (register_tools M s req)) req)) =
        PDict [(''success'', PBool True), (''registered'', PList [PStr ''move'']),
               (''replaced'', PList [PStr ''move'']),
               (''message'', PStr ''Registered 1 tool(s) (replaced: move)'')]
      \<and> sublist ''replaced: move'' ''Registered 1 tool(s) (replaced: move)'')"
proof (intro conjI impI allI ballI)
  fix t assume "model_validate M req = Inr payload" "t \<in> set (tools payload)"
  then show "is_registered (fst (register_tools M s req)) (project_id payload) (name t)"
    by (rule is_registered_after)
next
  fix n assume "model_validate M req = Inr payload"
  then show "map_of (tools_of (fst (register_tools M s req)) (project_id payload)) n =
            (case find (\<lambda>t. name t = n) (rev (tools payload)) of
               Some t \<Rightarrow> Some t
             | None \<Rightarrow> map_of (tools_of s (project_id payload)) n)"
    by (rule register_tools_lookup)
next
  fix h assume "model_validate M req = Inr payload" "project_hash payload = Some h \<and> h \<noteq> []"
  then show "hash_to_project (fst (register_tools M s req)) (lower h) = Some (project_id payload)"
    by (simp add: register_tools_hash)
next
  assume "model_validate M req = Inr payload"
    "project_hash payload = None \<or> project_hash payload = Some []"
  then show "hash_to_project (fst (register_tools M s req)) = hash_to_project s"
    by (auto simp: register_tools_hash)
next
  assume a: "model_validate M req = Inr \<lparr>project_id = P, project_hash = h0, tools = [move]\<rparr>
        \<and> name move = ''move'' \<and> \<not> is_registered s P ''move''"
  then show "content (snd (register_tools M s req)) =
        PDict [(''success'', PBool True), (''registered'', PList [PStr ''move'']),
               (''replaced'', PList []), (''message'', PStr ''Registered 1 tool(s)'')]"
    by (simp add: register_tools_single)
  have "is_registered (fst (register_tools M s req)) P ''move''"
    using a is_registered_after [of M req "\<lparr>project_id = P, project_hash = h0, tools = [move]\<rparr>" move s]
    by simp
  with a show "content (snd (register_tools M (fst (register_tools M s req)) req)) =
        PDict [(''success'', PBool True), (''registered'', PList [PStr ''move'']),
               (''replaced'', PList [PStr ''move'']),
               (''message'', PStr ''Registered 1 tool(s) (replaced: move)'')]"
    by (simp add: register_tools_single)
  have "sublist ''replaced: move'' (''Registered 1 tool(s) ('' @ ''replaced: move'' @ '')'')"
    by (rule sublist_appendI)
  then show "sublist ''replaced: move'' ''Registered 1 tool(s) (replaced: move)''"
    by simp
qed

text \<open>A request that registers \<^verbatim>\<open>move\<close> for project \<^verbatim>\<open>P\<close> with the hash \<^verbatim>\<open>AB12\<close>.\<close>

lemma strict_validate_move:
  "model_validate strict_models
      (PDict [(''project_id'', PStr ''P''), (''project_hash'', PStr ''AB12''),
              (''tools'', PList [PDict [(''name'', PStr ''move'')]])])
     = Inr \<lparr>project_id = ''P'', project_hash = Some ''AB12'', tools = [tool_named ''move'' False]\<rparr>"
  by (simp add: strict_models_def strict_validate_def strict_tool_of_json_def strict_definition_def
      as_opt_str_def dict_get_def tool_named_def)

theorem register_tools_upserts_witness:
  "is_registered
      (fst (register_tools strict_models empty_service
              (PDict [(''project_id'', PStr ''P''), (''project_hash'', PStr ''AB12''),
                      (''tools'', PList [PDict [(''name'', PStr ''move'')]])])))
      ''P'' ''move''
   \<and> hash_to_project
      (fst (register_tools strict_models empty_service
              (PDict [(''project_id'', PStr ''P''), (''project_hash'', PStr ''AB12''),
                      (''tools'', PList [PDict [(''name'', PStr ''move'')]])])))
      ''ab12'' = Some ''P''
   \<and> content (snd (register_tools strict_models empty_service
              (PDict [(''project_id'', PStr ''P''), (''project_hash'', PStr ''AB12''),
                      (''tools'', PList [PDict [(''name'', PStr ''move'')]])]))) =
        PDict [(''success'', PBool True), (''registered'', PList [PStr ''move'']),
               (''replaced'', PList []), (''message'', PStr ''Registered 1 tool(s)'')]
   \<and> content (snd (register_tools strict_models
              (fst (register_tools strict_models empty_service
                 (PDict [(''project_id'', PStr ''P''), (''project_hash'', PStr ''AB12''),
                         (''tools'', PList [PDict [(''name'', PStr ''move'')]])])))
              (PDict [(''project_id'', PStr ''P''), (''project_hash'', PStr ''AB12''),
                      (''tools'', PList [PDict [(''name'', PStr ''move'')]])]))) =
        PDict [(''success'', PBool True), (''registered'', PList [PStr ''move'']),
               (''replaced'', PList [PStr ''move'']),
               (''message'', PStr ''Registered 1 tool(s) (replaced: move)'')]"
proof -
  let ?req = "PDict [(''project_id'', PStr ''P''), (''project_hash'', PStr ''AB12''),
                     (''tools'', PList [PDict [(''name'', PStr ''move'')]])]"
  have fresh: "\<not> is_registered empty_service ''P'' ''move''"
    by (simp add: is_registered_def tools_of_def empty_service_def dict_has_def)
  have low: "lower ''AB12'' = ''ab12''"
    by (simp add: lower_def lower_char_def ascii_uppercase_def ascii_lowercase_def)
  have nm: "name (tool_named ''move'' False) = ''move''"
    by (simp add: tool_named_def)
  show ?thesis
    using register_tools_upserts [of strict_models ?req
        "\<lparr>project_id = ''P'', project_hash = Some ''AB12'', tools = [tool_named ''move'' False]\<rparr>"
        empty_service "''P''" "Some ''AB12''" "tool_named ''move'' False"]
      strict_validate_move fresh low nm
    by simp
qed

text \<open>C7 as stated fails for a hash that is supplied but empty: it is not
  recorded.\<close>

theorem register_tools_skips_empty_hash:
  "model_validate strict_models
      (PDict [(''project_id'', PStr ''P''), (''project_hash'', PStr ''''), (''tools'', PList [])])
     = Inr \<lparr>project_id = ''P'', project_hash = Some '''', tools = []\<rparr>
   \<and> hash_to_project
       (fst (register_tools strict_models empty_service
               (PDict [(''project_id'', PStr ''P''), (''project_hash'', PStr ''''),
                       (''tools'', PList [])])))
       (lower '''') = None"
  by (simp add: register_tools_def strict_models_def strict_validate_def as_opt_str_def dict_get_def
      empty_service_def lower_def)

section \<open>Properties of the listing\<close>

text \<open>
  C6, amended. \<^verbatim>\<open>list_registered_tools\<close> calls the sync without the force flag. When
  less than five seconds have passed since the last sync it does not sync at all: it only
  asks the hub, and returns the local tools of the project, unchanged, followed by the
  hub's. Otherwise it does what the forced listing does. In both cases a returned list is
  the local tools of the project, in the service as returned, followed by the tools the
  hub returned, nothing removed.
\<close>

theorem list_registered_tools_throttled:
  "sync_interval = 5
   \<and> list_registered_tools M E (w, s) pid =
      (if clock w - last_sync_time s < sync_interval then
         (case call w (\<lambda>k. get_tools_for_project E k pid) of
            (w2, Raised e) \<Rightarrow> ((w2, s), Raised e)
          | (w2, Returned hub_tools) \<Rightarrow> ((w2, s), Returned (map snd (tools_of s pid) @ hub_tools)))
       else list_tools_forced M E (w, s) pid)
   \<and> (list_registered_tools M E (w, s) pid = ((w', s'), Returned ts) \<longrightarrow>
        (\<exists>hub_tools.
            snd (call (fst (sync_all_unity_tools M E False (w, s))) (\<lambda>k. get_tools_for_project E k pid))
              = Returned hub_tools
            \<and> ts = map snd (tools_of s' pid) @ hub_tools))"
proof -
  have a: "sync_all_unity_tools M E False (w, s) =
      (if clock w - last_sync_time s < sync_interval then (w, s)
       else sync_all_unity_tools M E True (w, s))"
    by (simp add: sync_all_unity_tools_def)
  have b: "list_registered_tools M E (w, s) pid =
      (if clock w - last_sync_time s < sync_interval then
         (case call w (\<lambda>k. get_tools_for_project E k pid) of
            (w2, Raised e) \<Rightarrow> ((w2, s), Raised e)
          | (w2, Returned hub_tools) \<Rightarrow> ((w2, s), Returned (map snd (tools_of s pid) @ hub_tools)))
       else list_tools_forced M E (w, s) pid)"
    unfolding list_registered_tools_def list_tools_forced_def a by (simp add: Let_def)
  have c: "\<exists>hub_tools.
            snd (call (fst (sync_all_unity_tools M E False (w, s))) (\<lambda>k. get_tools_for_project E k pid))
              = Returned hub_tools
            \<and> ts = map snd (tools_of s' pid) @ hub_tools"
    if "list_registered_tools M E (w, s) pid = ((w', s'), Returned ts)"
    using that unfolding list_registered_tools_def
    by (auto simp: Let_def split: prod.splits outcome.splits)
  show ?thesis
    using b c by (simp add: sync_interval_def)
qed

text \<open>A hub that has a tool of the same name as a local one: both are listed.\<close>

theorem list_registered_tools_throttled_witness:
  "list_registered_tools strict_models
      ((host_replying pending_reply)
         \<lparr>get_tools_for_project := (\<lambda>k pid. (0, Returned [tool_named ''jump'' False]))\<rparr>)
      (\<lparr>clock = 102, tick = 0\<rparr>,
       (register_tool empty_service ''P'' (tool_named ''jump'' True))\<lparr>last_sync_time := 100\<rparr>) ''P''
    = ((\<lparr>clock = 102, tick = 1\<rparr>,
        (register_tool empty_service ''P'' (tool_named ''jump'' True))\<lparr>last_sync_time := 100\<rparr>),
       Returned [tool_named ''jump'' True, tool_named ''jump'' False])
   \<and> (\<exists>hub_tools. [tool_named ''jump'' True, tool_named ''jump'' False]
         = map snd (tools_of ((register_tool empty_service ''P'' (tool_named ''jump'' True))
                                \<lparr>last_sync_time := 100\<rparr>) ''P'') @ hub_tools)"
proof -
  let ?E = "(host_replying pending_reply)
         \<lparr>get_tools_for_project := (\<lambda>k pid. (0, Returned [tool_named ''jump'' False]))\<rparr>"
  let ?s = "(register_tool empty_service ''P'' (tool_named ''jump'' True))\<lparr>last_sync_time := 100\<rparr>"
  have loc: "tools_of ?s ''P'' = [(''jump'', tool_named ''jump'' True)]"
    by (simp add: tools_of_def register_tool_def empty_service_def tool_named_def)
  have run: "list_registered_tools strict_models ?E (\<lparr>clock = 102, tick = 0\<rparr>, ?s) ''P''
    = ((\<lparr>clock = 102, tick = 1\<rparr>, ?s), Returned [tool_named ''jump'' True, tool_named ''jump'' False])"
    using list_registered_tools_throttled [of strict_models ?E "\<lparr>clock = 102, tick = 0\<rparr>" ?s "''P''"]
    by (simp add: loc sync_interval_def call_def host_replying_def)
  show ?thesis
    using list_registered_tools_throttled [of strict_models ?E "\<lparr>clock = 102, tick = 0\<rparr>" ?s "''P''"
        "\<lparr>clock = 102, tick = 1\<rparr>" ?s "[tool_named ''jump'' True, tool_named ''jump'' False]"] run
    by (auto simp: loc)
qed

text \<open>C6 as stated fails: two seconds after a sync, the listing does not sync.
  It makes one call (to the hub) and misses the tool that the live instance offers and
  that the forced listing, which makes three calls, returns.\<close>

theorem list_registered_tools_skips_sync:
  "snd (list_registered_tools strict_models (host_replying pending_reply)
          (\<lparr>clock = 102, tick = 0\<rparr>, empty_service\<lparr>last_sync_time := 100\<rparr>)
          (compute_project_id ''MyGame'' ''/home/dev/MyGame''))
     = Returned []
   \<and> tick (fst (fst (list_registered_tools strict_models (host_replying pending_reply)
          (\<lparr>clock = 102, tick = 0\<rparr>, empty_service\<lparr>last_sync_time := 100\<rparr>)
          (compute_project_id ''MyGame'' ''/home/dev/MyGame'')))) = 1
   \<and> snd (list_tools_forced strict_models (host_replying pending_reply)
          (\<lparr>clock = 102, tick = 0\<rparr>, empty_service\<lparr>last_sync_time := 100\<rparr>)
          (compute_project_id ''MyGame'' ''/home/dev/MyGame''))
     = Returned [(tool_named ''jump'' False)\<lparr>poll_action := Some ''status''\<rparr>]
   \<and> tick (fst (fst (list_tools_forced strict_models (host_replying pending_reply)
          (\<lparr>clock = 102, tick = 0\<rparr>, empty_service\<lparr>last_sync_time := 100\<rparr>)
          (compute_project_id ''MyGame'' ''/home/dev/MyGame'')))) = 3"
proof -
  let ?ws = "(\<lparr>clock = 102, tick = 0\<rparr>, empty_service\<lparr>last_sync_time := 100\<rparr>)"
  let ?pid = "compute_project_id ''MyGame'' ''/home/dev/MyGame''"
  have throttled: "list_registered_tools strict_models (host_replying pending_reply) ?ws ?pid
      = ((\<lparr>clock = 102, tick = 1\<rparr>, empty_service\<lparr>last_sync_time := 100\<rparr>), Returned [])"
    by (simp add: list_registered_tools_def sync_all_unity_tools_def sync_interval_def call_def
        host_replying_def tools_of_def empty_service_def)
  have tool: "sync_tool strict_models ?pid s (PDict [(''name'', PStr ''jump'')])
      = Some (register_tool s ?pid ((tool_named ''jump'' False)\<lparr>poll_action := Some ''status''\<rparr>))" for s
    by (simp add: sync_tool_def dict_has_def dict_get_def build_param_def strict_models_def
        strict_definition_def as_opt_str_def tool_named_def)
  have sync: "sync_all_unity_tools strict_models (host_replying pending_reply) True ?ws
      = (\<lparr>clock = 102 + 1 / 100, tick = 2\<rparr>,
         register_tool (empty_service\<lparr>last_sync_time := 102\<rparr>) ?pid
           ((tool_named ''jump'' False)\<lparr>poll_action := Some ''status''\<rparr>))"
    by (simp add: sync_all_unity_tools_def sync_instance_def call_def host_replying_def
        dict_has_def dict_get_def tool empty_service_def)
  have forced: "list_tools_forced strict_models (host_replying pending_reply) ?ws ?pid
      = ((\<lparr>clock = 102 + 1 / 100, tick = 3\<rparr>,
          register_tool (empty_service\<lparr>last_sync_time := 102\<rparr>) ?pid
           ((tool_named ''jump'' False)\<lparr>poll_action := Some ''status''\<rparr>)),
         Returned [(tool_named ''jump'' False)\<lparr>poll_action := Some ''status''\<rparr>])"
    unfolding list_tools_forced_def sync
    by (simp add: call_def host_replying_def register_tool_def tools_of_def empty_service_def
        tool_named_def)
  show ?thesis
    unfolding throttled forced by simp
qed

section \<open>Properties of the connections\<close>




lemma pipe_connect_failed:
  "pipe_connect c os = ((c1, os1), False) \<Longrightarrow> pipe_handle c = None \<Longrightarrow> pipe_handle c1 = None"
  by (auto simp: pipe_connect_def
      split: if_splits prod.splits option.splits sum.splits io_error.splits)

lemma pipe_connect_has_win32: "has_win32 (snd (fst (pipe_connect c os))) = has_win32 os"
  by (auto simp: pipe_connect_def ReadFile_def
      split: if_splits prod.splits option.splits sum.splits io_error.splits)

lemma pipe_disconnect_handle: "pipe_handle (fst (pipe_disconnect c os)) = None"
  by (simp add: pipe_disconnect_def)

lemma pipe_send_command_raises:
  assumes "pipe_send_command C c os command_type params = ((c', os'), Inl e)"
    and inv: "pipe_invariant c os"
  shows "pipe_handle c' = None"
proof (cases "pipe_handle c = None")
  case True
  obtain c1 os1 ok where con: "pipe_connect c os = ((c1, os1), ok)"
    by (metis prod.collapse)
  show ?thesis
  proof (cases ok)
    case False
    with assms True con have "c' = c1" and "pipe_connect c os = ((c1, os1), False)"
      by (simp_all add: pipe_send_command_def)
    then show ?thesis
      using pipe_connect_failed [of c os c1 os1] True by simp
  next
    case ok: True
    have win: "has_win32 os1"
      using con ok pipe_connect_has_win32 [of c os]
      by (auto simp: pipe_connect_def split: if_splits)
    obtain os2 r where ex: "pipe_exchange C os1 command_type (make_payload C command_type params) = (os2, r)"
      by (metis prod.collapse)
    with assms True con ok win have "c' = fst (pipe_disconnect c1 os2)"
      by (auto simp: pipe_send_command_def split: sum.splits io_error.splits)
    then show ?thesis by (simp add: pipe_disconnect_handle)
  qed
next
  case False
  with inv have win: "has_win32 os"
    by (simp add: pipe_invariant_def)
  obtain os2 r where ex: "pipe_exchange C os command_type (make_payload C command_type params) = (os2, r)"
    by (metis prod.collapse)
  with assms False win have "c' = fst (pipe_disconnect c os2)"
    by (auto simp: pipe_send_command_def split: sum.splits io_error.splits)
  then show ?thesis by (simp add: pipe_disconnect_handle)
qed

text \<open>Outside the invariant the call fails and leaves the handle in place.\<close>

lemma pipe_send_command_without_bindings:
  "pipe_handle c \<noteq> None \<Longrightarrow> \<not> has_win32 os \<Longrightarrow>
   pipe_send_command C c os command_type params = ((c, os), Inl NameError)"
  by (auto simp: pipe_send_command_def)

text \<open>The invariant of the pipe connection: it holds of a new connection and the three
  methods keep it.\<close>

lemma pipe_exchange_has_win32:
  "pipe_exchange C os command_type payload = (os2, r) \<Longrightarrow> has_win32 os2 = has_win32 os"
  by (auto simp: pipe_exchange_def WriteFile_def ReadFile_def
      split: sum.splits prod.splits option.splits if_splits)

lemma pipe_invariant_kept:
  "pipe_invariant \<lparr>pipe_project_hash = h, pipe_handle = None\<rparr> os"
  "pipe_invariant c os \<Longrightarrow> pipe_invariant (fst (fst (pipe_connect c os))) (snd (fst (pipe_connect c os)))"
  "pipe_invariant c os \<Longrightarrow> pipe_invariant (fst (pipe_disconnect c os)) (snd (pipe_disconnect c os))"
  "pipe_invariant c os \<Longrightarrow>
     pipe_invariant (fst (fst (pipe_send_command C c os command_type params)))
       (snd (fst (pipe_send_command C c os command_type params)))"
proof -
  show "pipe_invariant \<lparr>pipe_project_hash = h, pipe_handle = None\<rparr> os"
    by (simp add: pipe_invariant_def)
  show con: "pipe_invariant (fst (fst (pipe_connect c os))) (snd (fst (pipe_connect c os)))"
    if "pipe_invariant c os" for c os
    using that
    by (auto simp: pipe_invariant_def pipe_connect_def ReadFile_def
        split: if_splits prod.splits option.splits sum.splits io_error.splits)
  show "pipe_invariant c os \<Longrightarrow> pipe_invariant (fst (pipe_disconnect c os)) (snd (pipe_disconnect c os))"
    by (simp add: pipe_invariant_def pipe_disconnect_def)
  show "pipe_invariant (fst (fst (pipe_send_command C c os command_type params)))
       (snd (fst (pipe_send_command C c os command_type params)))"
    if inv: "pipe_invariant c os"
  proof -
    obtain c' os' r where run: "pipe_send_command C c os command_type params = ((c', os'), r)"
      by (metis prod.collapse)
    show ?thesis
    proof (cases r)
      case (Inl e)
      with run inv have "pipe_handle c' = None"
        using pipe_send_command_raises by blast
      with run show ?thesis by (simp add: pipe_invariant_def)
    next
      case (Inr v)
      with run have "has_win32 os'"
        by (auto simp: pipe_send_command_def dest: pipe_exchange_has_win32
            split: if_splits bool.splits prod.splits sum.splits io_error.splits)
      with run show ?thesis by (simp add: pipe_invariant_def)
    qed
  qed
qed





end
